theory Spec2Isabelle
  imports Main
begin

section \<open>Account-sync job service (spaceone/identity/service/job\_service.py)\<close>

text \<open>
  A shallow embedding of \<^verbatim>\<open>JobService\<close>. Python methods whose names start with an
  underscore keep their names without it (\<^verbatim>\<open>_get_location\<close> is \<open>get_location\<close>).
  Record fields carry a prefix naming their document type, since the same field name
  (\<^verbatim>\<open>domain_id\<close>, \<^verbatim>\<open>name\<close>) occurs in several documents.
\<close>

subsection \<open>Data\<close>

type_synonym ident = string

text \<open>A Python dict payload (\<^verbatim>\<open>data\<close>, \<^verbatim>\<open>tags\<close>, \<^verbatim>\<open>secret_data\<close>, options): an
  association list; the empty list is the empty dict, which is falsy.\<close>

type_synonym pydict = "(string \<times> string) list"

text \<open>One node of a record's location path: \<^verbatim>\<open>{"name": ..., "resource_id": ...}\<close>.\<close>

record location_info =
  loc_name :: string
  loc_resource_id :: ident

text \<open>A record discovered by the plugin (one element of \<^verbatim>\<open>response["results"]\<close>).
  \<^verbatim>\<open>location\<close>, \<^verbatim>\<open>secret_data\<close>, \<^verbatim>\<open>data\<close> and \<^verbatim>\<open>tags\<close> are read with
  \<^verbatim>\<open>.get(key, default)\<close>, so an absent key is the default (empty) value;
  \<^verbatim>\<open>secret_schema_id\<close> is read with \<^verbatim>\<open>.get\<close> and may be \<^verbatim>\<open>None\<close>. The records
  are those of the spec's data model: \<^verbatim>\<open>name\<close> and \<^verbatim>\<open>resource_id\<close>, which the
  service subscripts, are present, in the record and in each location node.\<close>

record discovered =
  res_name :: string
  res_resource_id :: ident
  res_location :: "location_info list"
  res_secret_data :: pydict
  res_data :: pydict
  res_secret_schema_id :: "ident option"
  res_tags :: pydict

text \<open>The two sync options the service reads. Identifiers are non-empty strings, so the
  truth value of \<^verbatim>\<open>sync_options.get("single_workspace_id")\<close> is whether it is present.\<close>

record sync_options =
  skip_project_group :: bool
  single_workspace_id :: "ident option"

subsection \<open>Location derivation\<close>

text \<open>\<^verbatim>\<open>_get_location\<close> (lines 736-757). \<^verbatim>\<open>resource_group\<close> is a string compared with
  \<^verbatim>\<open>"DOMAIN"\<close>; the branch without \<^verbatim>\<open>skip_project_group\<close> only logs.\<close>

definition get_location :: "discovered \<Rightarrow> string \<Rightarrow> sync_options \<Rightarrow> location_info list" where
  "get_location result resource_group opts =
     (let location = res_location result in
      if skip_project_group opts then
        (if resource_group = ''DOMAIN'' then
           (case location of [] \<Rightarrow> location | x # _ \<Rightarrow> [x])
         else [])
      else location)"

subsection \<open>Jobs\<close>

datatype status = PENDING | IN_PROGRESS | SUCCESS | FAILURE | CANCELED

text \<open>Exceptions: the duplicate-job error the service raises itself, the errors of its
  collaborators (a lookup that finds nothing, any other failure of an external call), and
  Python's own \<^verbatim>\<open>KeyError\<close> and \<^verbatim>\<open>ValueError\<close>.\<close>

datatype error =
    ERROR_DUPLICATE_JOB ident
  | ERROR_NOT_FOUND string ident
  | ERROR_EXTERNAL string
  | KeyError string
  | ValueError string

record job =
  job_id :: ident
  job_resource_group :: string
  job_domain_id :: ident
  job_workspace_id :: ident
  job_trusted_account_id :: ident
  job_plugin_id :: ident
  job_opts :: pydict
  job_status :: status
  job_created_at :: int
  job_finished_at :: "int option"
  job_error :: "error option"

text \<open>The message handed to the dispatch queue by \<^verbatim>\<open>push_job\<close> (lines 397-405) and
  received by \<^verbatim>\<open>sync_service_accounts\<close> as \<^verbatim>\<open>params\<close>.\<close>

record message =
  msg_job_id :: ident
  msg_trusted_account_id :: ident
  msg_trusted_secret_id :: "ident option"
  msg_secret_data :: pydict
  msg_workspace_id :: ident
  msg_domain_id :: ident
  msg_options :: pydict

record trusted_account =
  ta_trusted_account_id :: ident
  ta_resource_group :: string
  ta_provider :: string
  ta_domain_id :: ident
  ta_workspace_id :: ident
  ta_secret_schema_id :: ident
  ta_trusted_secret_id :: "ident option"
  ta_sync_options :: sync_options
  ta_plugin_options :: pydict

text \<open>A provider with the entries of its \<^verbatim>\<open>plugin_info\<close> dict that the service reads:
  \<^verbatim>\<open>plugin_info["plugin_id"]\<close> raises \<^verbatim>\<open>KeyError\<close> when absent, the other two
  are read with \<^verbatim>\<open>.get\<close>.\<close>

record provider =
  prov_provider :: string
  prov_plugin_id :: "ident option"
  prov_options :: pydict
  prov_schema_id :: "ident option"

subsection \<open>Inventory documents\<close>

record workspace =
  ws_workspace_id :: ident
  ws_name :: string
  ws_domain_id :: ident
  ws_references :: "ident list"
  ws_tags :: pydict
  ws_is_managed :: bool
  ws_trusted_account_id :: "ident option"
  ws_last_synced_at :: "int option"

record project_group =
  pg_project_group_id :: ident
  pg_name :: string
  pg_reference_id :: "ident option"
  pg_is_managed :: bool
  pg_domain_id :: ident
  pg_workspace_id :: ident
  pg_parent_group_id :: "ident option"
  pg_trusted_account_id :: "ident option"
  pg_last_synced_at :: "int option"

record project =
  prj_project_id :: ident
  prj_name :: string
  prj_project_type :: string
  prj_reference_id :: "ident option"
  prj_is_managed :: bool
  prj_domain_id :: ident
  prj_workspace_id :: ident
  prj_project_group_id :: "ident option"
  prj_trusted_account_id :: "ident option"
  prj_last_synced_at :: "int option"

record service_account =
  sa_service_account_id :: ident
  sa_name :: string
  sa_provider :: string
  sa_reference_id :: "ident option"
  sa_is_managed :: bool
  sa_domain_id :: ident
  sa_workspace_id :: ident
  sa_project_id :: ident
  sa_data :: pydict
  sa_tags :: pydict
  sa_schema_id :: "ident option"
  sa_trusted_account_id :: "ident option"
  sa_secret_id :: "ident option"
  sa_last_synced_at :: "int option"

text \<open>The \<^verbatim>\<open>create_secret_params\<close> dict of lines 706-715.\<close>

record secret_params =
  sec_name :: string
  sec_data :: pydict
  sec_resource_group :: string
  sec_workspace_id :: ident
  sec_project_id :: ident
  sec_service_account_id :: ident
  sec_trusted_secret_id :: "ident option"
  sec_schema_id :: "ident option"

subsection \<open>Parameter dicts\<close>

text \<open>A \<^verbatim>\<open>params\<close> dict handed to a manager's create or update operation is a list of
  field assignments, applied in order, so that a later assignment to a key replaces an
  earlier one as \<^verbatim>\<open>dict.update\<close> does.\<close>

datatype job_field = JOB_finished_at int

datatype ws_field =
    WS_trusted_account_id ident | WS_is_managed bool | WS_name string
  | WS_references "ident list" | WS_last_synced_at int | WS_tags pydict | WS_domain_id ident

datatype pg_field =
    PG_trusted_account_id ident | PG_parent_group_id ident | PG_name string
  | PG_reference_id ident | PG_is_managed bool | PG_domain_id ident | PG_workspace_id ident
  | PG_last_synced_at int

datatype prj_field =
    PRJ_domain_id ident | PRJ_workspace_id ident | PRJ_project_type string
  | PRJ_reference_id ident | PRJ_is_managed bool | PRJ_project_group_id ident
  | PRJ_name string | PRJ_trusted_account_id ident | PRJ_last_synced_at int

datatype sa_field =
    SA_provider string | SA_reference_id ident | SA_is_managed bool | SA_domain_id ident
  | SA_workspace_id ident | SA_project_id ident | SA_name string | SA_data pydict
  | SA_trusted_account_id ident | SA_tags pydict | SA_schema_id ident
  | SA_last_synced_at int | SA_secret_id ident

fun job_set :: "job_field \<Rightarrow> job \<Rightarrow> job" where
  "job_set (JOB_finished_at t) j = j\<lparr>job_finished_at := Some t\<rparr>"

fun ws_set :: "ws_field \<Rightarrow> workspace \<Rightarrow> workspace" where
  "ws_set (WS_trusted_account_id x) w = w\<lparr>ws_trusted_account_id := Some x\<rparr>"
| "ws_set (WS_is_managed x) w = w\<lparr>ws_is_managed := x\<rparr>"
| "ws_set (WS_name x) w = w\<lparr>ws_name := x\<rparr>"
| "ws_set (WS_references x) w = w\<lparr>ws_references := x\<rparr>"
| "ws_set (WS_last_synced_at x) w = w\<lparr>ws_last_synced_at := Some x\<rparr>"
| "ws_set (WS_tags x) w = w\<lparr>ws_tags := x\<rparr>"
| "ws_set (WS_domain_id x) w = w\<lparr>ws_domain_id := x\<rparr>"

fun pg_set :: "pg_field \<Rightarrow> project_group \<Rightarrow> project_group" where
  "pg_set (PG_trusted_account_id x) g = g\<lparr>pg_trusted_account_id := Some x\<rparr>"
| "pg_set (PG_parent_group_id x) g = g\<lparr>pg_parent_group_id := Some x\<rparr>"
| "pg_set (PG_name x) g = g\<lparr>pg_name := x\<rparr>"
| "pg_set (PG_reference_id x) g = g\<lparr>pg_reference_id := Some x\<rparr>"
| "pg_set (PG_is_managed x) g = g\<lparr>pg_is_managed := x\<rparr>"
| "pg_set (PG_domain_id x) g = g\<lparr>pg_domain_id := x\<rparr>"
| "pg_set (PG_workspace_id x) g = g\<lparr>pg_workspace_id := x\<rparr>"
| "pg_set (PG_last_synced_at x) g = g\<lparr>pg_last_synced_at := Some x\<rparr>"

fun prj_set :: "prj_field \<Rightarrow> project \<Rightarrow> project" where
  "prj_set (PRJ_domain_id x) p = p\<lparr>prj_domain_id := x\<rparr>"
| "prj_set (PRJ_workspace_id x) p = p\<lparr>prj_workspace_id := x\<rparr>"
| "prj_set (PRJ_project_type x) p = p\<lparr>prj_project_type := x\<rparr>"
| "prj_set (PRJ_reference_id x) p = p\<lparr>prj_reference_id := Some x\<rparr>"
| "prj_set (PRJ_is_managed x) p = p\<lparr>prj_is_managed := x\<rparr>"
| "prj_set (PRJ_project_group_id x) p = p\<lparr>prj_project_group_id := Some x\<rparr>"
| "prj_set (PRJ_name x) p = p\<lparr>prj_name := x\<rparr>"
| "prj_set (PRJ_trusted_account_id x) p = p\<lparr>prj_trusted_account_id := Some x\<rparr>"
| "prj_set (PRJ_last_synced_at x) p = p\<lparr>prj_last_synced_at := Some x\<rparr>"

fun sa_set :: "sa_field \<Rightarrow> service_account \<Rightarrow> service_account" where
  "sa_set (SA_provider x) a = a\<lparr>sa_provider := x\<rparr>"
| "sa_set (SA_reference_id x) a = a\<lparr>sa_reference_id := Some x\<rparr>"
| "sa_set (SA_is_managed x) a = a\<lparr>sa_is_managed := x\<rparr>"
| "sa_set (SA_domain_id x) a = a\<lparr>sa_domain_id := x\<rparr>"
| "sa_set (SA_workspace_id x) a = a\<lparr>sa_workspace_id := x\<rparr>"
| "sa_set (SA_project_id x) a = a\<lparr>sa_project_id := x\<rparr>"
| "sa_set (SA_name x) a = a\<lparr>sa_name := x\<rparr>"
| "sa_set (SA_data x) a = a\<lparr>sa_data := x\<rparr>"
| "sa_set (SA_trusted_account_id x) a = a\<lparr>sa_trusted_account_id := Some x\<rparr>"
| "sa_set (SA_tags x) a = a\<lparr>sa_tags := x\<rparr>"
| "sa_set (SA_schema_id x) a = a\<lparr>sa_schema_id := Some x\<rparr>"
| "sa_set (SA_last_synced_at x) a = a\<lparr>sa_last_synced_at := Some x\<rparr>"
| "sa_set (SA_secret_id x) a = a\<lparr>sa_secret_id := Some x\<rparr>"

subsection \<open>The database and the collaborators\<close>

text \<open>The collections the service reads and writes, the dispatch queue, and a counter
  from which new identifiers are drawn. Each collection is the list of its documents in
  insertion order, the order in which a filter returns them.\<close>

record state =
  jobs :: "job list"
  queue :: "message list"
  workspaces :: "workspace list"
  project_groups :: "project_group list"
  projects :: "project list"
  service_accounts :: "service_account list"
  next_id :: nat

text \<open>The status transitions of \<^verbatim>\<open>JobManager\<close>, which the service only calls: the
  service is modelled over any five transitions, each a function on the stored job
  document.\<close>

record job_manager =
  change_in_progress_status :: "job \<Rightarrow> job"
  change_success_status :: "job \<Rightarrow> job"
  change_canceled_status :: "job \<Rightarrow> job"
  change_error_status :: "error \<Rightarrow> job \<Rightarrow> job"
  change_canceled_by_vo :: "job \<Rightarrow> job"

text \<open>Everything outside the service that it calls and that keeps no state of the model:
  the clock, the identifier generator, the read-only trusted-account, provider and schema
  lookups, the plugin transport, the secret vault, the schema validator, the queue
  transport (which may refuse a message), the random workspace theme
  (\<^verbatim>\<open>random.choice(WORKSPACE_COLORS_NAME)\<close>) and the job manager's transitions. A call
  that raises returns its error (\<open>Inl e\<close>, or \<open>Some e\<close> where there is no result).
  \<^verbatim>\<open>datetime.utcnow()\<close> is one instant, counted in seconds, for the whole of a call of
  the service.\<close>

record env =
  utcnow :: int
  new_id :: "string \<Rightarrow> nat \<Rightarrow> ident"
  get_trusted_account :: "ident \<Rightarrow> ident \<Rightarrow> ident option \<Rightarrow> error + trusted_account"
  get_provider :: "string \<Rightarrow> ident \<Rightarrow> error + provider"
  get_schema :: "ident \<Rightarrow> ident \<Rightarrow> error option"
  get_account_collector_plugin_endpoint :: "provider \<Rightarrow> ident \<Rightarrow> error + string"
  get_account_collector_plugin_endpoint_by_vo :: "provider \<Rightarrow> error + string"
  initialize :: "string \<Rightarrow> error option"
  plugin_sync :: "string \<Rightarrow> pydict \<Rightarrow> pydict \<Rightarrow> ident \<Rightarrow> ident option
                    \<Rightarrow> error + discovered list"
  secret_get_trusted_secret_data :: "ident \<Rightarrow> ident \<Rightarrow> error + pydict"
  validate_secret_data_by_schema_id :: "ident option \<Rightarrow> ident \<Rightarrow> pydict \<Rightarrow> string
                    \<Rightarrow> error option"
  delete_secret :: "ident \<Rightarrow> ident \<Rightarrow> error option"
  create_secret :: "secret_params \<Rightarrow> ident \<Rightarrow> error + ident"
  queue_refuses :: "message \<Rightarrow> error option"
  workspace_theme :: string
  ledger :: job_manager

type_synonym 'a result = "(error + 'a) \<times> state"

subsection \<open>Job manager: storage\<close>

text \<open>Modelled from the spec: \<^verbatim>\<open>JobManager.get_job\<close>, \<^verbatim>\<open>list_jobs\<close>,
  \<^verbatim>\<open>create_job\<close>, \<^verbatim>\<open>update_job_by_vo\<close> and \<^verbatim>\<open>push_job\<close> are not among the
  sources. They are the "standard filter/create/update-by-identity operations" of the
  spec's inventory stores: a lookup by the given keys that raises when nothing matches,
  a filter by the conditions of the query, an insert of a PENDING job, an update of the
  fields given, and an append to the dispatch queue unless the transport refuses.\<close>

definition get_job :: "ident \<Rightarrow> ident \<Rightarrow> ident option \<Rightarrow> state \<Rightarrow> error + job" where
  "get_job domain_id jid workspace_id s =
     (case filter (\<lambda>j. job_id j = jid \<and> job_domain_id j = domain_id
                       \<and> (case workspace_id of None \<Rightarrow> True
                           | Some w \<Rightarrow> job_workspace_id j = w)) (jobs s) of
        [] \<Rightarrow> Inl (ERROR_NOT_FOUND ''job_id'' jid)
      | j # _ \<Rightarrow> Inr j)"

text \<open>A value object is a handle on its stored document: an update through it changes
  the document with its identifier.\<close>

definition apply_job_vo :: "(job \<Rightarrow> job) \<Rightarrow> job \<Rightarrow> state \<Rightarrow> state" where
  "apply_job_vo f job_vo s =
     s\<lparr>jobs := map (\<lambda>j. if job_id j = job_id job_vo then f j else j) (jobs s)\<rparr>"

definition update_job_by_vo :: "job_field list \<Rightarrow> job \<Rightarrow> state \<Rightarrow> state" where
  "update_job_by_vo params job_vo s = apply_job_vo (fold job_set params) job_vo s"

definition create_job ::
  "env \<Rightarrow> string \<Rightarrow> ident \<Rightarrow> ident \<Rightarrow> ident \<Rightarrow> ident \<Rightarrow> pydict \<Rightarrow> state \<Rightarrow> job \<times> state" where
  "create_job env resource_group domain_id workspace_id trusted_account_id plugin_id options s =
     (let job_vo = \<lparr>job_id = new_id env ''job'' (next_id s),
                     job_resource_group = resource_group, job_domain_id = domain_id,
                     job_workspace_id = workspace_id,
                     job_trusted_account_id = trusted_account_id, job_plugin_id = plugin_id,
                     job_opts = options, job_status = PENDING,
                     job_created_at = utcnow env, job_finished_at = None,
                     job_error = None\<rparr>
      in (job_vo, s\<lparr>jobs := jobs s @ [job_vo], next_id := Suc (next_id s)\<rparr>))"

definition push_job :: "env \<Rightarrow> message \<Rightarrow> state \<Rightarrow> error + state" where
  "push_job env m s =
     (case queue_refuses env m of
        Some e \<Rightarrow> Inl e
      | None \<Rightarrow> Inr (s\<lparr>queue := queue s @ [m]\<rparr>))"

text \<open>Modelled from the spec: the transitions of \<^verbatim>\<open>JobManager\<close>
  (\<^verbatim>\<open>change_in_progress_status\<close>, \<^verbatim>\<open>change_success_status\<close>,
  \<^verbatim>\<open>change_canceled_status\<close>, \<^verbatim>\<open>change_error_status\<close>, \<^verbatim>\<open>change_canceled_by_vo\<close>)
  are not among the sources. The spec's Job Ledger: "calling any transition on an
  already-terminal job is a no-op or error"; the no-op is modelled. On a job that is not
  terminal the transition sets the status, and the failure also records the error.\<close>

definition terminal :: "status \<Rightarrow> bool" where
  "terminal st = (st = SUCCESS \<or> st = FAILURE \<or> st = CANCELED)"

definition spec_mark :: "status \<Rightarrow> job \<Rightarrow> job" where
  "spec_mark st j = (if terminal (job_status j) then j else j\<lparr>job_status := st\<rparr>)"

definition spec_mark_failure :: "error \<Rightarrow> job \<Rightarrow> job" where
  "spec_mark_failure e j =
     (if terminal (job_status j) then j else j\<lparr>job_status := FAILURE, job_error := Some e\<rparr>)"

definition spec_ledger :: job_manager where
  "spec_ledger = \<lparr>change_in_progress_status = spec_mark IN_PROGRESS,
                   change_success_status = spec_mark SUCCESS,
                   change_canceled_status = spec_mark CANCELED,
                   change_error_status = spec_mark_failure,
                   change_canceled_by_vo = spec_mark CANCELED\<rparr>"

text \<open>The order of the statuses along the transitions of the spec's state machine
  (PENDING to IN\_PROGRESS or CANCELED, IN\_PROGRESS to a terminal status): \<open>forward a b\<close>
  when \<open>b\<close> is \<open>a\<close> or can be reached from it; and its lifting to the job collections of
  two states, job by job.\<close>

definition forward :: "status \<Rightarrow> status \<Rightarrow> bool" where
  "forward a b = (a = b \<or> a = PENDING \<or> (a = IN_PROGRESS \<and> terminal b))"

definition forward_jobs :: "state \<Rightarrow> state \<Rightarrow> bool" where
  "forward_jobs s s' =
     list_all2 (\<lambda>x y. forward (job_status x) (job_status y)) (jobs s) (jobs s')"

subsection \<open>Job creation and the duplicate check\<close>

text \<open>\<^verbatim>\<open>_get_trusted_secret_data\<close> (lines 428-437).\<close>

definition get_trusted_secret_data :: "env \<Rightarrow> ident option \<Rightarrow> ident \<Rightarrow> error + pydict" where
  "get_trusted_secret_data env trusted_secret_id domain_id =
     (case trusted_secret_id of
        Some sid \<Rightarrow> secret_get_trusted_secret_data env sid domain_id
      | None \<Rightarrow> Inr [])"

text \<open>The query of \<^verbatim>\<open>_check_duplicate_job\<close> (lines 445-455): four \<^verbatim>\<open>eq\<close> conditions
  and one \<^verbatim>\<open>not\<close>.\<close>

definition duplicate_query :: "ident \<Rightarrow> ident \<Rightarrow> job \<Rightarrow> job \<Rightarrow> bool" where
  "duplicate_query domain_id trusted_account_id this_job_vo j =
     (job_trusted_account_id j = trusted_account_id
      \<and> job_workspace_id j = job_workspace_id this_job_vo
      \<and> job_domain_id j = domain_id
      \<and> job_status j = IN_PROGRESS
      \<and> job_id j \<noteq> job_id this_job_vo)"

definition list_jobs :: "(job \<Rightarrow> bool) \<Rightarrow> state \<Rightarrow> job list" where
  "list_jobs query s = filter query (jobs s)"

text \<open>The loop of lines 459-464 over the jobs the query returned: it returns at the first
  job created after \<^verbatim>\<open>duplicate_job_time\<close>, and cancels each job it passes before.\<close>

fun check_duplicate_loop :: "env \<Rightarrow> int \<Rightarrow> job list \<Rightarrow> state \<Rightarrow> bool \<times> state" where
  "check_duplicate_loop env duplicate_job_time [] s = (False, s)"
| "check_duplicate_loop env duplicate_job_time (job_vo # job_vos) s =
     (if job_created_at job_vo > duplicate_job_time then (True, s)
      else check_duplicate_loop env duplicate_job_time job_vos
             (apply_job_vo (change_canceled_by_vo (ledger env)) job_vo s))"

text \<open>\<^verbatim>\<open>_check_duplicate_job\<close> (lines 439-464); time is counted in seconds, so
  \<^verbatim>\<open>timedelta(minutes=10)\<close> is 600.\<close>

definition check_duplicate_job :: "env \<Rightarrow> ident \<Rightarrow> ident \<Rightarrow> job \<Rightarrow> state \<Rightarrow> bool \<times> state" where
  "check_duplicate_job env domain_id trusted_account_id this_job_vo s =
     (let job_vos = list_jobs (duplicate_query domain_id trusted_account_id this_job_vo) s;
          duplicate_job_time = utcnow env - 600
      in check_duplicate_loop env duplicate_job_time job_vos s)"

text \<open>Lines 362-378 of \<^verbatim>\<open>create_service_account_job\<close>: the \<^verbatim>\<open>try\<close> that fetches and
  validates the trusted secret; any exception leaves the empty dict.\<close>

definition fetch_trusted_secret_data :: "env \<Rightarrow> trusted_account \<Rightarrow> pydict" where
  "fetch_trusted_secret_data env trusted_account_vo =
     (case get_trusted_secret_data env (ta_trusted_secret_id trusted_account_vo)
             (ta_domain_id trusted_account_vo) of
        Inl e \<Rightarrow> []
      | Inr trusted_secret_data \<Rightarrow>
          if trusted_secret_data \<noteq> [] then
            (case validate_secret_data_by_schema_id env
                    (Some (ta_secret_schema_id trusted_account_vo))
                    (ta_domain_id trusted_account_vo) trusted_secret_data ''SECRET'' of
               Some e \<Rightarrow> []
             | None \<Rightarrow> trusted_secret_data)
          else trusted_secret_data)"

text \<open>The dict pushed to the queue (lines 397-405).\<close>

definition job_message :: "trusted_account \<Rightarrow> job \<Rightarrow> pydict \<Rightarrow> pydict \<Rightarrow> message" where
  "job_message trusted_account_vo job_vo trusted_secret_data job_options =
     \<lparr>msg_job_id = job_id job_vo,
      msg_trusted_account_id = ta_trusted_account_id trusted_account_vo,
      msg_trusted_secret_id = ta_trusted_secret_id trusted_account_vo,
      msg_secret_data = trusted_secret_data,
      msg_workspace_id = ta_workspace_id trusted_account_vo,
      msg_domain_id = ta_domain_id trusted_account_vo,
      msg_options = job_options\<rparr>"

text \<open>\<^verbatim>\<open>create_service_account_job\<close> (lines 336-410). The provider lookup, the
  \<^verbatim>\<open>plugin_id\<close> subscript and the plugin initialisation stand before the \<^verbatim>\<open>try\<close>
  and raise to the caller.\<close>

definition create_service_account_job ::
  "env \<Rightarrow> trusted_account \<Rightarrow> pydict \<Rightarrow> state \<Rightarrow> job result" where
  "create_service_account_job env trusted_account_vo job_options s =
     (let resource_group = ta_resource_group trusted_account_vo;
          provider = ta_provider trusted_account_vo;
          trusted_account_id = ta_trusted_account_id trusted_account_vo;
          workspace_id = (if resource_group = ''DOMAIN'' then ''*''
                          else ta_workspace_id trusted_account_vo);
          domain_id = ta_domain_id trusted_account_vo
      in case get_provider env provider domain_id of
           Inl e \<Rightarrow> (Inl e, s)
         | Inr provider_vo \<Rightarrow>
      (case prov_plugin_id provider_vo of
           None \<Rightarrow> (Inl (KeyError ''plugin_id''), s)
         | Some plugin_id \<Rightarrow>
      (case get_account_collector_plugin_endpoint_by_vo env provider_vo of
           Inl e \<Rightarrow> (Inl e, s)
         | Inr endpoint \<Rightarrow>
      (case initialize env endpoint of
           Some e \<Rightarrow> (Inl e, s)
         | None \<Rightarrow>
      (let trusted_secret_data = fetch_trusted_secret_data env trusted_account_vo;
           (job_vo, s1) = create_job env resource_group domain_id workspace_id
                            trusted_account_id plugin_id job_options s;
           (duplicate, s2) = check_duplicate_job env domain_id trusted_account_id job_vo s1
       in if duplicate then
            (Inr job_vo,
             apply_job_vo (change_error_status (ledger env)
                             (ERROR_DUPLICATE_JOB trusted_account_id)) job_vo s2)
          else
            (case push_job env
                    (job_message trusted_account_vo job_vo trusted_secret_data job_options)
                    s2 of
               Inl e \<Rightarrow> (Inr job_vo, apply_job_vo (change_error_status (ledger env) e) job_vo s2)
             | Inr s3 \<Rightarrow> (Inr job_vo, s3)))))))"

subsection \<open>Job status checks\<close>

text \<open>\<^verbatim>\<open>_is_job_failed\<close> (lines 466-474).\<close>

definition is_job_failed :: "ident \<Rightarrow> ident \<Rightarrow> ident option \<Rightarrow> state \<Rightarrow> error + bool" where
  "is_job_failed jid domain_id workspace_id s =
     (case get_job domain_id jid workspace_id s of
        Inl e \<Rightarrow> Inl e
      | Inr job_vo \<Rightarrow> Inr (job_status job_vo = CANCELED \<or> job_status job_vo = FAILURE))"

text \<open>\<^verbatim>\<open>_close_job\<close> (lines 476-486).\<close>

definition close_job :: "env \<Rightarrow> ident \<Rightarrow> ident \<Rightarrow> ident option \<Rightarrow> state \<Rightarrow> unit result" where
  "close_job env jid domain_id workspace_id s =
     (case get_job domain_id jid workspace_id s of
        Inl e \<Rightarrow> (Inl e, s)
      | Inr job_vo \<Rightarrow>
          if job_status job_vo = IN_PROGRESS then
            (Inr (), apply_job_vo (change_success_status (ledger env)) job_vo s)
          else if job_status job_vo = FAILURE then
            (Inr (), update_job_by_vo [JOB_finished_at (utcnow env)] job_vo s)
          else (Inr (), s))"

subsection \<open>Inventory managers\<close>

text \<open>Modelled from the spec: the managers \<^verbatim>\<open>WorkspaceManager\<close>,
  \<^verbatim>\<open>ProjectGroupManager\<close>, \<^verbatim>\<open>ProjectManager\<close> and \<^verbatim>\<open>ServiceAccountManager\<close> are
  not among the sources. They are the spec's inventory stores, "standard
  filter/create/update-by-identity operations": a filter returns the documents that
  carry every given value, an update through a value object sets the given fields of its
  document, a create appends a document with a new identifier and the given fields. The
  filter of workspaces by \<^verbatim>\<open>references=[reference_id]\<close> returns the workspaces that
  hold the id (the spec: "any other workspace that previously held it").\<close>

definition workspace_mgr_filter_by_name :: "ident \<Rightarrow> string \<Rightarrow> state \<Rightarrow> workspace list" where
  "workspace_mgr_filter_by_name domain_id name s =
     filter (\<lambda>w. ws_domain_id w = domain_id \<and> ws_name w = name) (workspaces s)"

definition workspace_mgr_filter_by_references :: "ident \<Rightarrow> ident \<Rightarrow> state \<Rightarrow> workspace list" where
  "workspace_mgr_filter_by_references domain_id reference_id s =
     filter (\<lambda>w. ws_domain_id w = domain_id \<and> reference_id \<in> set (ws_references w))
       (workspaces s)"

definition workspace_mgr_get_workspace :: "ident \<Rightarrow> ident \<Rightarrow> state \<Rightarrow> error + workspace" where
  "workspace_mgr_get_workspace workspace_id domain_id s =
     (case filter (\<lambda>w. ws_workspace_id w = workspace_id \<and> ws_domain_id w = domain_id)
             (workspaces s) of
        [] \<Rightarrow> Inl (ERROR_NOT_FOUND ''workspace_id'' workspace_id)
      | w # _ \<Rightarrow> Inr w)"

definition update_workspace_by_vo :: "ws_field list \<Rightarrow> workspace \<Rightarrow> state \<Rightarrow> workspace \<times> state" where
  "update_workspace_by_vo params workspace_vo s =
     (fold ws_set params workspace_vo,
      s\<lparr>workspaces := map (\<lambda>w. if ws_workspace_id w = ws_workspace_id workspace_vo
                                then fold ws_set params w else w) (workspaces s)\<rparr>)"

definition workspace_mgr_create_workspace :: "env \<Rightarrow> ws_field list \<Rightarrow> state \<Rightarrow> workspace \<times> state" where
  "workspace_mgr_create_workspace env params s =
     (let workspace_vo = fold ws_set params
            \<lparr>ws_workspace_id = new_id env ''workspace'' (next_id s), ws_name = [],
             ws_domain_id = [], ws_references = [], ws_tags = [], ws_is_managed = False,
             ws_trusted_account_id = None, ws_last_synced_at = None\<rparr>
      in (workspace_vo,
          s\<lparr>workspaces := workspaces s @ [workspace_vo], next_id := Suc (next_id s)\<rparr>))"

fun pg_has :: "pg_field \<Rightarrow> project_group \<Rightarrow> bool" where
  "pg_has (PG_trusted_account_id x) g = (pg_trusted_account_id g = Some x)"
| "pg_has (PG_parent_group_id x) g = (pg_parent_group_id g = Some x)"
| "pg_has (PG_name x) g = (pg_name g = x)"
| "pg_has (PG_reference_id x) g = (pg_reference_id g = Some x)"
| "pg_has (PG_is_managed x) g = (pg_is_managed g = x)"
| "pg_has (PG_domain_id x) g = (pg_domain_id g = x)"
| "pg_has (PG_workspace_id x) g = (pg_workspace_id g = x)"
| "pg_has (PG_last_synced_at x) g = (pg_last_synced_at g = Some x)"

definition filter_project_groups :: "pg_field list \<Rightarrow> state \<Rightarrow> project_group list" where
  "filter_project_groups conditions s =
     filter (\<lambda>g. list_all (\<lambda>c. pg_has c g) conditions) (project_groups s)"

definition update_project_group_by_vo ::
  "pg_field list \<Rightarrow> project_group \<Rightarrow> state \<Rightarrow> project_group \<times> state" where
  "update_project_group_by_vo params project_group_vo s =
     (fold pg_set params project_group_vo,
      s\<lparr>project_groups :=
           map (\<lambda>g. if pg_project_group_id g = pg_project_group_id project_group_vo
                     then fold pg_set params g else g) (project_groups s)\<rparr>)"

definition project_group_mgr_create_project_group ::
  "env \<Rightarrow> pg_field list \<Rightarrow> state \<Rightarrow> project_group \<times> state" where
  "project_group_mgr_create_project_group env params s =
     (let project_group_vo = fold pg_set params
            \<lparr>pg_project_group_id = new_id env ''pg'' (next_id s), pg_name = [],
             pg_reference_id = None, pg_is_managed = False, pg_domain_id = [],
             pg_workspace_id = [], pg_parent_group_id = None,
             pg_trusted_account_id = None, pg_last_synced_at = None\<rparr>
      in (project_group_vo,
          s\<lparr>project_groups := project_groups s @ [project_group_vo],
            next_id := Suc (next_id s)\<rparr>))"

fun prj_has :: "prj_field \<Rightarrow> project \<Rightarrow> bool" where
  "prj_has (PRJ_domain_id x) p = (prj_domain_id p = x)"
| "prj_has (PRJ_workspace_id x) p = (prj_workspace_id p = x)"
| "prj_has (PRJ_project_type x) p = (prj_project_type p = x)"
| "prj_has (PRJ_reference_id x) p = (prj_reference_id p = Some x)"
| "prj_has (PRJ_is_managed x) p = (prj_is_managed p = x)"
| "prj_has (PRJ_project_group_id x) p = (prj_project_group_id p = Some x)"
| "prj_has (PRJ_name x) p = (prj_name p = x)"
| "prj_has (PRJ_trusted_account_id x) p = (prj_trusted_account_id p = Some x)"
| "prj_has (PRJ_last_synced_at x) p = (prj_last_synced_at p = Some x)"

definition filter_projects :: "prj_field list \<Rightarrow> state \<Rightarrow> project list" where
  "filter_projects conditions s =
     filter (\<lambda>p. list_all (\<lambda>c. prj_has c p) conditions) (projects s)"

definition update_project_by_vo :: "prj_field list \<Rightarrow> project \<Rightarrow> state \<Rightarrow> project \<times> state" where
  "update_project_by_vo params project_vo s =
     (fold prj_set params project_vo,
      s\<lparr>projects := map (\<lambda>p. if prj_project_id p = prj_project_id project_vo
                              then fold prj_set params p else p) (projects s)\<rparr>)"

definition project_mgr_create_project :: "env \<Rightarrow> prj_field list \<Rightarrow> state \<Rightarrow> project \<times> state" where
  "project_mgr_create_project env params s =
     (let project_vo = fold prj_set params
            \<lparr>prj_project_id = new_id env ''project'' (next_id s), prj_name = [],
             prj_project_type = [], prj_reference_id = None, prj_is_managed = False,
             prj_domain_id = [], prj_workspace_id = [], prj_project_group_id = None,
             prj_trusted_account_id = None, prj_last_synced_at = None\<rparr>
      in (project_vo, s\<lparr>projects := projects s @ [project_vo], next_id := Suc (next_id s)\<rparr>))"

fun sa_has :: "sa_field \<Rightarrow> service_account \<Rightarrow> bool" where
  "sa_has (SA_provider x) a = (sa_provider a = x)"
| "sa_has (SA_reference_id x) a = (sa_reference_id a = Some x)"
| "sa_has (SA_is_managed x) a = (sa_is_managed a = x)"
| "sa_has (SA_domain_id x) a = (sa_domain_id a = x)"
| "sa_has (SA_workspace_id x) a = (sa_workspace_id a = x)"
| "sa_has (SA_project_id x) a = (sa_project_id a = x)"
| "sa_has (SA_name x) a = (sa_name a = x)"
| "sa_has (SA_data x) a = (sa_data a = x)"
| "sa_has (SA_trusted_account_id x) a = (sa_trusted_account_id a = Some x)"
| "sa_has (SA_tags x) a = (sa_tags a = x)"
| "sa_has (SA_schema_id x) a = (sa_schema_id a = Some x)"
| "sa_has (SA_last_synced_at x) a = (sa_last_synced_at a = Some x)"
| "sa_has (SA_secret_id x) a = (sa_secret_id a = Some x)"

definition filter_service_accounts :: "sa_field list \<Rightarrow> state \<Rightarrow> service_account list" where
  "filter_service_accounts conditions s =
     filter (\<lambda>a. list_all (\<lambda>c. sa_has c a) conditions) (service_accounts s)"

definition update_service_account_by_vo ::
  "sa_field list \<Rightarrow> service_account \<Rightarrow> state \<Rightarrow> service_account \<times> state" where
  "update_service_account_by_vo params service_account_vo s =
     (fold sa_set params service_account_vo,
      s\<lparr>service_accounts :=
           map (\<lambda>a. if sa_service_account_id a = sa_service_account_id service_account_vo
                     then fold sa_set params a else a) (service_accounts s)\<rparr>)"

definition service_account_mgr_create_service_account ::
  "env \<Rightarrow> sa_field list \<Rightarrow> state \<Rightarrow> service_account \<times> state" where
  "service_account_mgr_create_service_account env params s =
     (let service_account_vo = fold sa_set params
            \<lparr>sa_service_account_id = new_id env ''sa'' (next_id s), sa_name = [],
             sa_provider = [], sa_reference_id = None, sa_is_managed = False,
             sa_domain_id = [], sa_workspace_id = [], sa_project_id = [], sa_data = [],
             sa_tags = [], sa_schema_id = None, sa_trusted_account_id = None,
             sa_secret_id = None, sa_last_synced_at = None\<rparr>
      in (service_account_vo,
          s\<lparr>service_accounts := service_accounts s @ [service_account_vo],
            next_id := Suc (next_id s)\<rparr>))"

subsection \<open>Hierarchy reconciliation\<close>

text \<open>\<^verbatim>\<open>_set_workspace_theme\<close> (lines 759-767); \<^verbatim>\<open>tags\<close> is \<^verbatim>\<open>None\<close> or a dict.\<close>

definition set_workspace_theme :: "env \<Rightarrow> pydict option \<Rightarrow> pydict" where
  "set_workspace_theme env tags =
     (let theme = workspace_theme env in
      case tags of
        None \<Rightarrow> [(''theme'', theme)]
      | Some d \<Rightarrow> if d \<noteq> [] then filter (\<lambda>kv. fst kv \<noteq> ''theme'') d @ [(''theme'', theme)]
                  else [(''theme'', theme)])"

text \<open>The loop of \<^verbatim>\<open>_remove_old_reference_id_from_workspace\<close> (lines 729-734) over the
  workspaces the filter returned. \<^verbatim>\<open>list.remove\<close> removes the first occurrence and
  raises \<^verbatim>\<open>ValueError\<close> when there is none.\<close>

fun remove_old_reference_loop :: "ident \<Rightarrow> workspace list \<Rightarrow> state \<Rightarrow> unit result" where
  "remove_old_reference_loop reference_id [] s = (Inr (), s)"
| "remove_old_reference_loop reference_id (workspace_vo # workspace_vos) s =
     (let references = ws_references workspace_vo in
      if reference_id \<in> set references then
        remove_old_reference_loop reference_id workspace_vos
          (snd (update_workspace_by_vo [WS_references (remove1 reference_id references)]
                  workspace_vo s))
      else (Inl (ValueError ''list.remove(x): x not in list''), s))"

text \<open>\<^verbatim>\<open>_remove_old_reference_id_from_workspace\<close> (lines 723-734).\<close>

definition remove_old_reference_id_from_workspace :: "ident \<Rightarrow> ident \<Rightarrow> state \<Rightarrow> unit result" where
  "remove_old_reference_id_from_workspace domain_id reference_id s =
     remove_old_reference_loop reference_id
       (workspace_mgr_filter_by_references domain_id reference_id s) s"

text \<open>\<^verbatim>\<open>_create_workspace\<close> (lines 488-528).\<close>

definition create_workspace :: "env \<Rightarrow> ident \<Rightarrow> ident \<Rightarrow> location_info \<Rightarrow> state \<Rightarrow> workspace result" where
  "create_workspace env domain_id trusted_account_id location_info s =
     (let name = loc_name location_info;
          reference_id = loc_resource_id location_info;
          workspace_vos = workspace_mgr_filter_by_name domain_id name s;
          params = [WS_trusted_account_id trusted_account_id, WS_is_managed True]
      in case workspace_vos of
           workspace_vo # _ \<Rightarrow>
             (let params = params @ (if ws_name workspace_vo \<noteq> name then [WS_name name] else []);
                  params = params @
                    (if ws_references workspace_vo \<noteq> []
                        \<and> reference_id \<notin> set (ws_references workspace_vo)
                     then [WS_references (ws_references workspace_vo @ [reference_id])]
                     else []);
                  params = params @ [WS_last_synced_at (utcnow env)];
                  (workspace_vo, s1) = update_workspace_by_vo params workspace_vo s
              in case remove_old_reference_id_from_workspace domain_id reference_id s1 of
                   (Inl e, s2) \<Rightarrow> (Inl e, s2)
                 | (Inr _, s2) \<Rightarrow> (Inr workspace_vo, s2))
         | [] \<Rightarrow>
             (let params = params @
                    [WS_name name, WS_tags (set_workspace_theme env None),
                     WS_domain_id domain_id, WS_last_synced_at (utcnow env),
                     WS_references [reference_id]];
                  (workspace_vo, s1) = workspace_mgr_create_workspace env params s
              in (Inr workspace_vo, s1)))"

text \<open>\<^verbatim>\<open>_create_project_group\<close> (lines 530-583).\<close>

definition create_project_group ::
  "env \<Rightarrow> ident \<Rightarrow> ident \<Rightarrow> ident \<Rightarrow> location_info \<Rightarrow> ident option \<Rightarrow> state
     \<Rightarrow> project_group \<times> state" where
  "create_project_group env domain_id workspace_id trusted_account_id location_info
       parent_group_id s =
     (let name = loc_name location_info;
          reference_id = loc_resource_id location_info;
          filter_params = [PG_is_managed True, PG_reference_id reference_id,
                           PG_domain_id domain_id, PG_workspace_id workspace_id];
          project_group_vos = filter_project_groups filter_params s;
          params = [PG_trusted_account_id trusted_account_id];
          params = params @ (case parent_group_id of
                               Some g \<Rightarrow> [PG_parent_group_id g] | None \<Rightarrow> [])
      in case project_group_vos of
           project_group_vo # _ \<Rightarrow>
             (let params = params @ (if pg_name project_group_vo \<noteq> name
                                     then [PG_name name] else []);
                  params = params @ [PG_last_synced_at (utcnow env)]
              in update_project_group_by_vo params project_group_vo s)
         | [] \<Rightarrow>
             (let params = params @
                    [PG_name name, PG_reference_id reference_id, PG_is_managed True,
                     PG_domain_id domain_id, PG_workspace_id workspace_id,
                     PG_last_synced_at (utcnow env)];
                  params = params @ (case parent_group_id of
                                       Some g \<Rightarrow> [PG_parent_group_id g] | None \<Rightarrow> [])
              in project_group_mgr_create_project_group env params s))"

text \<open>\<^verbatim>\<open>_create_project\<close> (lines 585-629); \<^verbatim>\<open>project_type\<close> keeps its default
  \<^verbatim>\<open>"PRIVATE"\<close>, the only value the service passes. The \<^verbatim>\<open>params\<close> dict is first
  the filter and then, extended, the update or create payload.\<close>

definition create_project ::
  "env \<Rightarrow> discovered \<Rightarrow> ident \<Rightarrow> ident \<Rightarrow> ident \<Rightarrow> ident option \<Rightarrow> state \<Rightarrow> project \<times> state" where
  "create_project env result domain_id workspace_id trusted_account_id project_group_id s =
     (let name = res_name result;
          reference_id = res_resource_id result;
          params = [PRJ_domain_id domain_id, PRJ_workspace_id workspace_id,
                    PRJ_project_type ''PRIVATE'', PRJ_reference_id reference_id,
                    PRJ_is_managed True];
          project_vos = filter_projects params s;
          params = params @ (case project_group_id of
                               Some g \<Rightarrow> [PRJ_project_group_id g] | None \<Rightarrow> [])
      in case project_vos of
           project_vo # _ \<Rightarrow>
             (let params = params @ (if prj_name project_vo \<noteq> name
                                     then [PRJ_name name] else []);
                  params = params @ [PRJ_trusted_account_id trusted_account_id,
                                     PRJ_last_synced_at (utcnow env)]
              in update_project_by_vo params project_vo s)
         | [] \<Rightarrow>
             (let params = params @ [PRJ_name name, PRJ_last_synced_at (utcnow env)]
              in project_mgr_create_project env params s))"

text \<open>The update payload of lines 666-673 of \<^verbatim>\<open>_create_service_account\<close>: the dict
  that may hold the new name is replaced by a new dict before it is used.\<close>

definition service_account_update_params ::
  "env \<Rightarrow> discovered \<Rightarrow> service_account \<Rightarrow> ident \<Rightarrow> sa_field list" where
  "service_account_update_params env result service_account_vo trusted_account_id =
     (let update_params = [];
          update_params = update_params @
             (if sa_name service_account_vo \<noteq> res_name result
              then [SA_name (res_name result)] else []);
          update_params = [SA_trusted_account_id trusted_account_id,
                           SA_last_synced_at (utcnow env)]
      in update_params)"

text \<open>\<^verbatim>\<open>_create_service_account\<close> (lines 631-721).\<close>

definition create_service_account ::
  "env \<Rightarrow> discovered \<Rightarrow> project \<Rightarrow> ident \<Rightarrow> ident option \<Rightarrow> string \<Rightarrow> state
     \<Rightarrow> service_account result" where
  "create_service_account env result project_vo trusted_account_id trusted_secret_id
       provider s =
     (let domain_id = prj_domain_id project_vo;
          workspace_id = prj_workspace_id project_vo;
          project_id = prj_project_id project_vo;
          name = res_name result;
          reference_id = res_resource_id result;
          secret_data = res_secret_data result;
          data = res_data result;
          secret_schema_id = res_secret_schema_id result;
          tags = res_tags result;
          params = [SA_provider provider, SA_reference_id reference_id, SA_is_managed True,
                    SA_domain_id domain_id, SA_workspace_id workspace_id,
                    SA_project_id project_id];
          service_account_vos = filter_service_accounts params s;
          (service_account_vo, s1) =
            (case service_account_vos of
               service_account_vo # _ \<Rightarrow>
                 update_service_account_by_vo
                   (service_account_update_params env result service_account_vo
                      trusted_account_id)
                   service_account_vo s
             | [] \<Rightarrow>
                 (let params = params @
                        [SA_name name, SA_data data,
                         SA_trusted_account_id trusted_account_id, SA_tags tags];
                      params = params @ (case secret_schema_id of
                                           Some x \<Rightarrow> [SA_schema_id x] | None \<Rightarrow> [])
                  in service_account_mgr_create_service_account env params s))
      in if secret_data \<noteq> [] then
           (case (case sa_secret_id service_account_vo of
                    Some sid \<Rightarrow> delete_secret env sid domain_id
                  | None \<Rightarrow> None) of
              Some e \<Rightarrow> (Inl e, s1)
            | None \<Rightarrow>
           (case validate_secret_data_by_schema_id env secret_schema_id
                   (sa_domain_id service_account_vo) secret_data ''TRUSTING_SECRET'' of
              Some e \<Rightarrow> (Inl e, s1)
            | None \<Rightarrow>
           (case create_secret env
                   \<lparr>sec_name = sa_service_account_id service_account_vo @ ''-secret'',
                    sec_data = secret_data, sec_resource_group = ''PROJECT'',
                    sec_workspace_id = workspace_id, sec_project_id = project_id,
                    sec_service_account_id = sa_service_account_id service_account_vo,
                    sec_trusted_secret_id = trusted_secret_id,
                    sec_schema_id = secret_schema_id\<rparr> domain_id of
              Inl e \<Rightarrow> (Inl e, s1)
            | Inr secret_id \<Rightarrow>
                (let (service_account_vo, s2) =
                       update_service_account_by_vo [SA_secret_id secret_id]
                         service_account_vo s1
                 in (Inr service_account_vo, s2)))))
         else (Inr service_account_vo, s1))"

subsection \<open>Sync execution\<close>

text \<open>\<^verbatim>\<open>options.update(plugin_options)\<close>: the keys of the second dict replace those of
  the first.\<close>

definition dict_update :: "pydict \<Rightarrow> pydict \<Rightarrow> pydict" where
  "dict_update d u = filter (\<lambda>kv. fst kv \<notin> set (map fst u)) d @ u"

text \<open>The loop of lines 284-293 over the remaining location nodes: each project group is
  parented to the one before; the result is the last group's id, \<^verbatim>\<open>None\<close> when there
  was no node.\<close>

fun project_group_loop ::
  "env \<Rightarrow> ident \<Rightarrow> ident \<Rightarrow> ident \<Rightarrow> location_info list \<Rightarrow> ident option \<Rightarrow> state
     \<Rightarrow> ident option \<times> state" where
  "project_group_loop env domain_id sync_workspace_id trusted_account_id [] parent_group_id s =
     (parent_group_id, s)"
| "project_group_loop env domain_id sync_workspace_id trusted_account_id
       (location_info # location) parent_group_id s =
     (let (project_group_vo, s1) =
            create_project_group env domain_id sync_workspace_id trusted_account_id
              location_info parent_group_id s
      in project_group_loop env domain_id sync_workspace_id trusted_account_id location
           (Some (pg_project_group_id project_group_vo)) s1)"

text \<open>Lines 263-282: the workspace a record is synced into and what is left of its
  location. \<open>Inr None\<close> is the \<^verbatim>\<open>continue\<close> of line 277.\<close>

definition resolve_sync_workspace ::
  "env \<Rightarrow> trusted_account \<Rightarrow> sync_options \<Rightarrow> ident \<Rightarrow> ident \<Rightarrow> ident
     \<Rightarrow> location_info list \<Rightarrow> state \<Rightarrow> (ident \<times> location_info list) option result" where
  "resolve_sync_workspace env trusted_account_vo opts domain_id workspace_id
       trusted_account_id location s =
     (if ta_resource_group trusted_account_vo = ''DOMAIN'' then
        (case single_workspace_id opts of
           Some single \<Rightarrow>
             (case workspace_mgr_get_workspace single domain_id s of
                Inl e \<Rightarrow> (Inl e, s)
              | Inr workspace_vo \<Rightarrow> (Inr (Some (ws_workspace_id workspace_vo, location)), s))
         | None \<Rightarrow>
             (case location of
                location_info # location \<Rightarrow>
                  (case create_workspace env domain_id trusted_account_id location_info s of
                     (Inl e, s1) \<Rightarrow> (Inl e, s1)
                   | (Inr workspace_vo, s1) \<Rightarrow>
                       (Inr (Some (ws_workspace_id workspace_vo, location)), s1))
              | [] \<Rightarrow> (Inr None, s)))
      else (Inr (Some (workspace_id, location)), s))"

text \<open>The body of the loop over the discovered records (lines 259-310).\<close>

definition sync_record ::
  "env \<Rightarrow> trusted_account \<Rightarrow> sync_options \<Rightarrow> string \<Rightarrow> ident \<Rightarrow> ident \<Rightarrow> ident
     \<Rightarrow> ident option \<Rightarrow> discovered \<Rightarrow> state \<Rightarrow> unit result" where
  "sync_record env trusted_account_vo opts provider domain_id workspace_id
       trusted_account_id trusted_secret_id result s =
     (let location = get_location result (ta_resource_group trusted_account_vo) opts
      in case resolve_sync_workspace env trusted_account_vo opts domain_id workspace_id
                trusted_account_id location s of
           (Inl e, s1) \<Rightarrow> (Inl e, s1)
         | (Inr None, s1) \<Rightarrow> (Inr (), s1)
         | (Inr (Some (sync_workspace_id, location)), s1) \<Rightarrow>
             (let (parent_group_id, s2) =
                    project_group_loop env domain_id sync_workspace_id trusted_account_id
                      location None s1;
                  (project_vo, s3) =
                    create_project env result domain_id sync_workspace_id
                      trusted_account_id parent_group_id s2
              in case create_service_account env result project_vo trusted_account_id
                        trusted_secret_id provider s3 of
                   (Inl e, s4) \<Rightarrow> (Inl e, s4)
                 | (Inr _, s4) \<Rightarrow> (Inr (), s4)))"

text \<open>The loop of line 258: the first record that raises ends it.\<close>

fun sync_records ::
  "env \<Rightarrow> trusted_account \<Rightarrow> sync_options \<Rightarrow> string \<Rightarrow> ident \<Rightarrow> ident \<Rightarrow> ident
     \<Rightarrow> ident option \<Rightarrow> discovered list \<Rightarrow> state \<Rightarrow> unit result" where
  "sync_records env trusted_account_vo opts provider domain_id workspace_id
       trusted_account_id trusted_secret_id [] s = (Inr (), s)"
| "sync_records env trusted_account_vo opts provider domain_id workspace_id
       trusted_account_id trusted_secret_id (result # results) s =
     (case sync_record env trusted_account_vo opts provider domain_id workspace_id
             trusted_account_id trusted_secret_id result s of
        (Inl e, s1) \<Rightarrow> (Inl e, s1)
      | (Inr _, s1) \<Rightarrow>
          sync_records env trusted_account_vo opts provider domain_id workspace_id
            trusted_account_id trusted_secret_id results s1)"

text \<open>Lines 312-324, after the loop: the job is checked again; a failed or canceled job
  gets \<^verbatim>\<open>change_canceled_status\<close> and \<^verbatim>\<open>is_canceled\<close>, any other job
  \<^verbatim>\<open>change_success_status\<close>.\<close>

definition sync_finish :: "env \<Rightarrow> job \<Rightarrow> ident \<Rightarrow> ident \<Rightarrow> state \<Rightarrow> unit result" where
  "sync_finish env job_vo jid domain_id s =
     (case is_job_failed jid domain_id (Some (job_workspace_id job_vo)) s of
        Inl e \<Rightarrow> (Inl e, s)
      | Inr failed \<Rightarrow>
          (let (is_canceled, s1) =
                 (if failed then
                    (True, apply_job_vo (change_canceled_status (ledger env)) job_vo s)
                  else (False, s))
           in if \<not> is_canceled then
                (Inr (), apply_job_vo (change_success_status (ledger env)) job_vo s1)
              else (Inr (), s1)))"

text \<open>The body of the \<^verbatim>\<open>try\<close> (lines 237-324).\<close>

definition sync_try ::
  "env \<Rightarrow> trusted_account \<Rightarrow> provider \<Rightarrow> job \<Rightarrow> message \<Rightarrow> state \<Rightarrow> unit result" where
  "sync_try env trusted_account_vo provider_vo job_vo params s =
     (let domain_id = msg_domain_id params;
          options = dict_update (prov_options provider_vo)
                      (ta_plugin_options trusted_account_vo);
          schema_id = prov_schema_id provider_vo
      in case get_account_collector_plugin_endpoint env provider_vo domain_id of
           Inl e \<Rightarrow> (Inl e, s)
         | Inr endpoint \<Rightarrow>
      (case initialize env endpoint of
           Some e \<Rightarrow> (Inl e, s)
         | None \<Rightarrow>
      (case plugin_sync env endpoint options (msg_secret_data params) domain_id schema_id of
           Inl e \<Rightarrow> (Inl e, s)
         | Inr results \<Rightarrow>
      (case sync_records env trusted_account_vo (ta_sync_options trusted_account_vo)
              (prov_provider provider_vo) domain_id (msg_workspace_id params)
              (msg_trusted_account_id params) (msg_trusted_secret_id params) results s of
           (Inl e, s1) \<Rightarrow> (Inl e, s1)
         | (Inr _, s1) \<Rightarrow> sync_finish env job_vo (msg_job_id params) domain_id s1))))"

text \<open>Lines 231-328: the first check of the job, and the \<^verbatim>\<open>try\<close> with its handler.\<close>

definition sync_run ::
  "env \<Rightarrow> trusted_account \<Rightarrow> provider \<Rightarrow> job \<Rightarrow> message \<Rightarrow> state \<Rightarrow> unit result" where
  "sync_run env trusted_account_vo provider_vo job_vo params s =
     (case is_job_failed (msg_job_id params) (msg_domain_id params)
             (Some (job_workspace_id job_vo)) s of
        Inl e \<Rightarrow> (Inl e, s)
      | Inr failed \<Rightarrow>
          if failed then
            (Inr (), apply_job_vo (change_canceled_status (ledger env)) job_vo s)
          else
            (case sync_try env trusted_account_vo provider_vo job_vo params
                    (apply_job_vo (change_in_progress_status (ledger env)) job_vo s) of
               (Inl e, s1) \<Rightarrow>
                 (Inr (), apply_job_vo (change_error_status (ledger env) e) job_vo s1)
             | (Inr _, s1) \<Rightarrow> (Inr (), s1)))"

text \<open>\<^verbatim>\<open>sync_service_accounts\<close> (lines 189-334). The four lookups of lines 214-224 and
  the first job check stand before the \<^verbatim>\<open>try\<close>: an exception there leaves the method;
  \<^verbatim>\<open>_close_job\<close> follows the \<^verbatim>\<open>if\<close>/\<^verbatim>\<open>else\<close> of lines 231-328.\<close>

definition sync_service_accounts :: "env \<Rightarrow> message \<Rightarrow> state \<Rightarrow> unit result" where
  "sync_service_accounts env params s =
     (let trusted_account_id = msg_trusted_account_id params;
          jid = msg_job_id params;
          workspace_id = msg_workspace_id params;
          domain_id = msg_domain_id params
      in case get_trusted_account env trusted_account_id domain_id (Some workspace_id) of
           Inl e \<Rightarrow> (Inl e, s)
         | Inr trusted_account_vo \<Rightarrow>
      (case get_job domain_id jid (Some workspace_id) s of
           Inl e \<Rightarrow> (Inl e, s)
         | Inr job_vo \<Rightarrow>
      (case get_schema env (ta_secret_schema_id trusted_account_vo) domain_id of
           Some e \<Rightarrow> (Inl e, s)
         | None \<Rightarrow>
      (case get_provider env (ta_provider trusted_account_vo) domain_id of
           Inl e \<Rightarrow> (Inl e, s)
         | Inr provider_vo \<Rightarrow>
      (case sync_run env trusted_account_vo provider_vo job_vo params s of
           (Inl e, s1) \<Rightarrow> (Inl e, s1)
         | (Inr _, s1) \<Rightarrow>
             close_job env jid domain_id (Some (job_workspace_id job_vo)) s1)))))"

subsection \<open>Example data\<close>

definition ex_node_ws :: location_info where
  "ex_node_ws = \<lparr>loc_name = ''ws-a'', loc_resource_id = ''w1''\<rparr>"

definition ex_node_g1 :: location_info where
  "ex_node_g1 = \<lparr>loc_name = ''grp-b'', loc_resource_id = ''g1''\<rparr>"

definition ex_node_g2 :: location_info where
  "ex_node_g2 = \<lparr>loc_name = ''grp-c'', loc_resource_id = ''g2''\<rparr>"

definition ex_record3 :: discovered where
  "ex_record3 = \<lparr>res_name = ''acct-1'', res_resource_id = ''r1'',
     res_location = [ex_node_ws, ex_node_g1, ex_node_g2],
     res_secret_data = [], res_data = [], res_secret_schema_id = None, res_tags = []\<rparr>"

definition ex_opts_skip :: sync_options where
  "ex_opts_skip = \<lparr>skip_project_group = True, single_workspace_id = None\<rparr>"

definition ex_opts_none :: sync_options where
  "ex_opts_none = \<lparr>skip_project_group = False, single_workspace_id = None\<rparr>"

definition ex_record_noloc :: discovered where
  "ex_record_noloc = \<lparr>res_name = ''acct-0'', res_resource_id = ''r0'', res_location = [],
     res_secret_data = [], res_data = [], res_secret_schema_id = None, res_tags = []\<rparr>"

definition ex_record_renamed :: discovered where
  "ex_record_renamed = \<lparr>res_name = ''acct-1-renamed'', res_resource_id = ''r1'',
     res_location = [ex_node_ws], res_secret_data = [], res_data = [],
     res_secret_schema_id = None, res_tags = []\<rparr>"

definition ex_ta :: trusted_account where
  "ex_ta = \<lparr>ta_trusted_account_id = ''ta-1'', ta_resource_group = ''DOMAIN'',
     ta_provider = ''aws'', ta_domain_id = ''d1'', ta_workspace_id = ''*'',
     ta_secret_schema_id = ''sch'', ta_trusted_secret_id = Some ''ts-1'',
     ta_sync_options = ex_opts_none, ta_plugin_options = []\<rparr>"

definition ex_provider :: provider where
  "ex_provider = \<lparr>prov_provider = ''aws'', prov_plugin_id = Some ''plg'',
     prov_options = [], prov_schema_id = None\<rparr>"

text \<open>An environment in which the trusted account \<open>ta-1\<close> and its provider exist, the
  plugin discovers nothing, the secret vault is out of reach, the queue accepts every
  message, and the job manager is the spec's ledger.\<close>

definition ex_env :: env where
  "ex_env = \<lparr>utcnow = 10000,
     new_id = (\<lambda>kind n. kind @ ''-new''),
     get_trusted_account = (\<lambda>t d w. if t = ''ta-1'' then Inr ex_ta
                                     else Inl (ERROR_NOT_FOUND ''trusted_account_id'' t)),
     get_provider = (\<lambda>p d. Inr ex_provider),
     get_schema = (\<lambda>i d. None),
     get_account_collector_plugin_endpoint = (\<lambda>p d. Inr ''grpc''),
     get_account_collector_plugin_endpoint_by_vo = (\<lambda>p. Inr ''grpc''),
     initialize = (\<lambda>e. None),
     plugin_sync = (\<lambda>e opts secret d sch. Inr []),
     secret_get_trusted_secret_data = (\<lambda>i d. Inl (ERROR_EXTERNAL ''vault'')),
     validate_secret_data_by_schema_id = (\<lambda>sch d data kind. None),
     delete_secret = (\<lambda>i d. None),
     create_secret = (\<lambda>p d. Inr ''secret-1''),
     queue_refuses = (\<lambda>m. None),
     workspace_theme = ''blue'',
     ledger = spec_ledger\<rparr>"

definition ex_job :: "ident \<Rightarrow> status \<Rightarrow> int \<Rightarrow> job" where
  "ex_job i st t = \<lparr>job_id = i, job_resource_group = ''DOMAIN'', job_domain_id = ''d1'',
     job_workspace_id = ''*'', job_trusted_account_id = ''ta-1'', job_plugin_id = ''plg'',
     job_opts = [], job_status = st, job_created_at = t, job_finished_at = None,
     job_error = None\<rparr>"

definition ex_state :: "job list \<Rightarrow> state" where
  "ex_state js = \<lparr>jobs = js, queue = [], workspaces = [], project_groups = [],
     projects = [], service_accounts = [], next_id = 0\<rparr>"

definition ex_msg :: "ident \<Rightarrow> message" where
  "ex_msg t = \<lparr>msg_job_id = ''job-1'', msg_trusted_account_id = t,
     msg_trusted_secret_id = Some ''ts-1'', msg_secret_data = [], msg_workspace_id = ''*'',
     msg_domain_id = ''d1'', msg_options = []\<rparr>"

definition ex_workspace :: workspace where
  "ex_workspace = \<lparr>ws_workspace_id = ''ws-1'', ws_name = ''ws-a'', ws_domain_id = ''d1'',
     ws_references = [''w1''], ws_tags = [], ws_is_managed = True,
     ws_trusted_account_id = Some ''ta-1'', ws_last_synced_at = Some 9000\<rparr>"

definition ex_project :: project where
  "ex_project = \<lparr>prj_project_id = ''p-1'', prj_name = ''acct-1'',
     prj_project_type = ''PRIVATE'', prj_reference_id = Some ''r1'', prj_is_managed = True,
     prj_domain_id = ''d1'', prj_workspace_id = ''ws-1'',
     prj_project_group_id = Some ''pg-old'', prj_trusted_account_id = Some ''ta-0'',
     prj_last_synced_at = Some 9000\<rparr>"

definition ex_service_account :: service_account where
  "ex_service_account = \<lparr>sa_service_account_id = ''sa-1'', sa_name = ''acct-1'',
     sa_provider = ''aws'', sa_reference_id = Some ''r1'', sa_is_managed = True,
     sa_domain_id = ''d1'', sa_workspace_id = ''ws-1'', sa_project_id = ''p-1'',
     sa_data = [], sa_tags = [], sa_schema_id = None, sa_trusted_account_id = Some ''ta-0'',
     sa_secret_id = None, sa_last_synced_at = Some 9000\<rparr>"

definition ex_inventory :: state where
  "ex_inventory = \<lparr>jobs = [], queue = [], workspaces = [ex_workspace], project_groups = [],
     projects = [ex_project], service_accounts = [ex_service_account], next_id = 0\<rparr>"

text \<open>The same environment with a plugin whose discovery call raises.\<close>

definition ex_env_plugin_down :: env where
  "ex_env_plugin_down =
     ex_env\<lparr>plugin_sync := (\<lambda>e opts secret d sch. Inl (ERROR_EXTERNAL ''plugin''))\<rparr>"

section \<open>Auxiliary facts\<close>

lemma sync_records_append:
  "sync_records env ta opts provider d w taid tsid (xs @ ys) s =
     (case sync_records env ta opts provider d w taid tsid xs s of
        (Inl e, s1) \<Rightarrow> (Inl e, s1)
      | (Inr u, s1) \<Rightarrow> sync_records env ta opts provider d w taid tsid ys s1)"
  by (induction xs arbitrary: s) (auto split: prod.splits sum.splits)

lemma map_names_update_sa:
  "(\<And>a. sa_name (f a) = sa_name a) \<Longrightarrow>
   map sa_name (map (\<lambda>a. if P a then f a else a) xs) = map sa_name xs"
  by (induction xs) auto

lemma sa_update_params_eq:
  "service_account_update_params env result a taid =
     [SA_trusted_account_id taid, SA_last_synced_at (utcnow env)]"
  by (simp add: service_account_update_params_def)

lemma prj_has_set: "prj_has c p \<Longrightarrow> prj_set c p = p"
  by (cases c) auto

lemma filter_map_keys:
  "(\<And>x. P (f x) = P x) \<Longrightarrow> filter P (map f xs) = map f (filter P xs)"
  by (induction xs) auto

lemma get_job_apply_job_vo:
  assumes "\<And>x. job_id (f x) = job_id x" "\<And>x. job_domain_id (f x) = job_domain_id x"
    "\<And>x. job_workspace_id (f x) = job_workspace_id x"
  shows "get_job d i w (apply_job_vo f vo s) =
     (case get_job d i w s of Inl e \<Rightarrow> Inl e
      | Inr j \<Rightarrow> Inr (if job_id j = job_id vo then f j else j))"
proof -
  let ?P = "\<lambda>j. job_id j = i \<and> job_domain_id j = d
                       \<and> (case w of None \<Rightarrow> True | Some w \<Rightarrow> job_workspace_id j = w)"
  let ?g = "\<lambda>j. if job_id j = job_id vo then f j else j"
  have "\<And>x. ?P (?g x) = ?P x" using assms by (auto split: option.splits)
  then have "filter ?P (map ?g (jobs s)) = map ?g (filter ?P (jobs s))"
    by (rule filter_map_keys)
  then show ?thesis
    by (cases "filter ?P (jobs s)") (simp_all add: get_job_def apply_job_vo_def)
qed

lemma spec_mark_keys [simp]:
  "job_id (spec_mark st x) = job_id x" "job_domain_id (spec_mark st x) = job_domain_id x"
  "job_workspace_id (spec_mark st x) = job_workspace_id x"
  by (simp_all add: spec_mark_def)

lemma spec_mark_terminal [simp]: "terminal (job_status x) \<Longrightarrow> spec_mark st x = x"
  by (simp add: spec_mark_def)

lemma spec_ledger_simps [simp]:
  "change_in_progress_status spec_ledger = spec_mark IN_PROGRESS"
  "change_success_status spec_ledger = spec_mark SUCCESS"
  "change_canceled_status spec_ledger = spec_mark CANCELED"
  "change_error_status spec_ledger = spec_mark_failure"
  "change_canceled_by_vo spec_ledger = spec_mark CANCELED"
  by (simp_all add: spec_ledger_def)

lemma get_job_workspace:
  "get_job d i (Some w) s = Inr j \<Longrightarrow> job_workspace_id j = w \<and> job_id j = i \<and> job_domain_id j = d"
proof -
  assume a: "get_job d i (Some w) s = Inr j"
  let ?P = "\<lambda>j. job_id j = i \<and> job_domain_id j = d \<and> job_workspace_id j = w"
  from a obtain r where "filter ?P (jobs s) = j # r"
    by (auto simp: get_job_def split: list.splits)
  then have "j \<in> set (filter ?P (jobs s))" by simp
  then show ?thesis by simp
qed

lemma check_duplicate_loop_eq:
  "check_duplicate_loop env t vos s =
     (list_ex (\<lambda>j. t < job_created_at j) vos,
      fold (\<lambda>j. apply_job_vo (change_canceled_by_vo (ledger env)) j)
        (takeWhile (\<lambda>j. \<not> t < job_created_at j) vos) s)"
  by (induction vos arbitrary: s) auto

lemma fold_apply_job_vo:
  "fold (\<lambda>j. apply_job_vo f j) xs s =
     s\<lparr>jobs := fold (\<lambda>a. map (\<lambda>j. if job_id j = job_id a then f j else j)) xs (jobs s)\<rparr>"
proof (induction xs arbitrary: s)
  case Nil
  then show ?case by simp
next
  case (Cons a xs)
  have "fold (\<lambda>j. apply_job_vo f j) (a # xs) s = fold (\<lambda>j. apply_job_vo f j) xs (apply_job_vo f a s)"
    by simp
  also have "\<dots> = (apply_job_vo f a s)\<lparr>jobs := fold (\<lambda>a. map (\<lambda>j. if job_id j = job_id a then f j else j)) xs
       (jobs (apply_job_vo f a s))\<rparr>"
    by (rule Cons.IH)
  also have "\<dots> = s\<lparr>jobs := fold (\<lambda>a. map (\<lambda>j. if job_id j = job_id a then f j else j)) (a # xs) (jobs s)\<rparr>"
    by (simp add: apply_job_vo_def)
  finally show ?case .
qed

lemma spec_mark_canceled_idem:
  "spec_mark CANCELED (spec_mark CANCELED x) = spec_mark CANCELED x"
  by (simp add: spec_mark_def terminal_def)

lemma fold_spec_cancel:
  "fold (\<lambda>a. map (\<lambda>j. if job_id j = job_id a then spec_mark CANCELED j else j)) xs js =
     map (\<lambda>x. if job_id x \<in> job_id ` set xs then spec_mark CANCELED x else x) js"
proof (induction xs arbitrary: js)
  case Nil
  then show ?case by simp
next
  case (Cons a xs)
  show ?case
    by (simp add: Cons.IH spec_mark_canceled_idem)
qed

lemma create_job_frame:
  "create_job env rg d w t p opts s = (job_vo, s1) \<Longrightarrow>
     queue s1 = queue s \<and> jobs s1 = jobs s @ [job_vo] \<and> job_status job_vo = PENDING
     \<and> job_error job_vo = None"
  by (auto simp: create_job_def Let_def)

lemma ex_env_simps:
  "utcnow ex_env = 10000" "ledger ex_env = spec_ledger"
  "get_provider ex_env p d = Inr ex_provider"
  "get_schema ex_env i d = None"
  "get_account_collector_plugin_endpoint ex_env pv d = Inr ''grpc''"
  "get_account_collector_plugin_endpoint_by_vo ex_env pv = Inr ''grpc''"
  "initialize ex_env e = None"
  "plugin_sync ex_env e opts secret d sch = Inr []"
  "queue_refuses ex_env m = None"
  "new_id ex_env kind n = kind @ ''-new''"
  "secret_get_trusted_secret_data ex_env i d = Inl (ERROR_EXTERNAL ''vault'')"
  "get_trusted_account ex_env t d w = (if t = ''ta-1'' then Inr ex_ta
                                     else Inl (ERROR_NOT_FOUND ''trusted_account_id'' t))"
  by (simp_all add: ex_env_def)

lemma ex_create_job:
  "create_job ex_env (ta_resource_group ex_ta) (ta_domain_id ex_ta)
     (if ta_resource_group ex_ta = ''DOMAIN'' then ''*'' else ta_workspace_id ex_ta)
     (ta_trusted_account_id ex_ta) ''plg'' [] (ex_state js) =
     (ex_job ''job-new'' PENDING 10000,
      (ex_state (js @ [ex_job ''job-new'' PENDING 10000]))\<lparr>next_id := 1\<rparr>)"
  by (simp add: create_job_def Let_def ex_env_simps ex_ta_def ex_job_def ex_state_def)

lemma length_fold_map:
  "length (fold (\<lambda>a. map (g a)) xs js) = length js"
  by (induction xs arbitrary: js) simp_all

lemma ex_env_plugin_down_simps:
  "utcnow ex_env_plugin_down = 10000" "ledger ex_env_plugin_down = spec_ledger"
  "get_provider ex_env_plugin_down p d = Inr ex_provider"
  "get_schema ex_env_plugin_down i d = None"
  "get_account_collector_plugin_endpoint ex_env_plugin_down pv d = Inr ''grpc''"
  "initialize ex_env_plugin_down e = None"
  "plugin_sync ex_env_plugin_down e opts secret d sch = Inl (ERROR_EXTERNAL ''plugin'')"
  "get_trusted_account ex_env_plugin_down t d w =
     (if t = ''ta-1'' then Inr ex_ta else Inl (ERROR_NOT_FOUND ''trusted_account_id'' t))"
  by (simp_all add: ex_env_plugin_down_def ex_env_def)

lemma jobs_update_workspace_by_vo:
  "update_workspace_by_vo params vo s = (vo', s') \<Longrightarrow> jobs s' = jobs s"
  by (auto simp: update_workspace_by_vo_def)

lemma jobs_remove_old_reference_loop:
  "remove_old_reference_loop r vos s = (res, s') \<Longrightarrow> jobs s' = jobs s"
proof (induction vos arbitrary: s)
  case Nil
  then show ?case by simp
next
  case (Cons vo vos)
  show ?case
  proof (cases "r \<in> set (ws_references vo)")
    case True
    with Cons.prems have "remove_old_reference_loop r vos
        (snd (update_workspace_by_vo [WS_references (remove1 r (ws_references vo))] vo s))
        = (res, s')"
      by (simp add: Let_def)
    from Cons.IH[OF this] show ?thesis by (simp add: update_workspace_by_vo_def)
  next
    case False
    with Cons.prems show ?thesis by (simp add: Let_def)
  qed
qed

lemma jobs_create_workspace:
  "create_workspace env d t l s = (res, s') \<Longrightarrow> jobs s' = jobs s"
  by (auto simp: create_workspace_def Let_def workspace_mgr_create_workspace_def
        remove_old_reference_id_from_workspace_def
        split: list.splits prod.splits sum.splits
        dest!: jobs_update_workspace_by_vo jobs_remove_old_reference_loop)

lemma jobs_create_project_group:
  "create_project_group env d w t l p s = (res, s') \<Longrightarrow> jobs s' = jobs s"
  by (auto simp: create_project_group_def Let_def update_project_group_by_vo_def
        project_group_mgr_create_project_group_def split: list.splits)

lemma jobs_project_group_loop:
  "project_group_loop env d w t ls p s = (res, s') \<Longrightarrow> jobs s' = jobs s"
proof (induction ls arbitrary: p s)
  case Nil
  then show ?case by simp
next
  case (Cons l ls)
  obtain vo s1 where c: "create_project_group env d w t l p s = (vo, s1)"
    by (cases "create_project_group env d w t l p s")
  from Cons.prems c have "project_group_loop env d w t ls (Some (pg_project_group_id vo)) s1
      = (res, s')"
    by simp
  from Cons.IH[OF this] jobs_create_project_group[OF c] show ?case by simp
qed

lemma jobs_create_project:
  "create_project env r d w t g s = (res, s') \<Longrightarrow> jobs s' = jobs s"
  by (auto simp: create_project_def Let_def update_project_by_vo_def
        project_mgr_create_project_def split: list.splits)

lemma jobs_update_service_account_by_vo:
  "update_service_account_by_vo params vo s = (vo', s') \<Longrightarrow> jobs s' = jobs s"
  by (auto simp: update_service_account_by_vo_def)

lemma jobs_service_account_mgr_create:
  "service_account_mgr_create_service_account env params s = (vo', s') \<Longrightarrow> jobs s' = jobs s"
  by (auto simp: service_account_mgr_create_service_account_def Let_def)

lemma jobs_create_service_account:
  "create_service_account env r p t ts prov s = (res, s') \<Longrightarrow> jobs s' = jobs s"
  unfolding create_service_account_def Let_def
  by (auto split: list.splits option.splits sum.splits prod.splits if_splits
        dest!: jobs_update_service_account_by_vo jobs_service_account_mgr_create)

lemma jobs_resolve_sync_workspace:
  "resolve_sync_workspace env ta opts d w t loc s = (res, s') \<Longrightarrow> jobs s' = jobs s"
  unfolding resolve_sync_workspace_def
  by (auto split: option.splits sum.splits list.splits prod.splits if_splits
        dest!: jobs_create_workspace)

lemma jobs_sync_record:
  "sync_record env ta opts prov d w t ts r s = (res, s') \<Longrightarrow> jobs s' = jobs s"
  unfolding sync_record_def Let_def
  by (auto split: option.splits sum.splits prod.splits
        dest!: jobs_resolve_sync_workspace jobs_project_group_loop jobs_create_project
          jobs_create_service_account)

lemma jobs_sync_records:
  "sync_records env ta opts prov d w t ts rs s = (res, s') \<Longrightarrow> jobs s' = jobs s"
proof (induction rs arbitrary: s)
  case Nil
  then show ?case by simp
next
  case (Cons r rs)
  obtain x s1 where c: "sync_record env ta opts prov d w t ts r s = (x, s1)"
    by (cases "sync_record env ta opts prov d w t ts r s")
  show ?case
  proof (cases x)
    case (Inl e)
    with Cons.prems c jobs_sync_record[OF c] show ?thesis by simp
  next
    case (Inr u)
    with Cons.prems c have "sync_records env ta opts prov d w t ts rs s1 = (res, s')"
      by simp
    from Cons.IH[OF this] jobs_sync_record[OF c] show ?thesis by simp
  qed
qed

lemma forward_refl [simp]: "forward a a"
  by (simp add: forward_def)

lemma forward_trans: "forward a b \<Longrightarrow> forward b c \<Longrightarrow> forward a c"
  by (auto simp: forward_def terminal_def)

lemma forward_terminal: "terminal a \<Longrightarrow> forward a b \<Longrightarrow> b = a"
  by (auto simp: forward_def terminal_def)

lemma forward_spec_mark: "st \<noteq> PENDING \<Longrightarrow> forward (job_status x) (job_status (spec_mark st x))"
  by (cases "job_status x"; cases st) (auto simp: forward_def spec_mark_def terminal_def)

lemma forward_spec_mark_failure: "forward (job_status x) (job_status (spec_mark_failure e x))"
  by (cases "job_status x") (auto simp: forward_def spec_mark_failure_def terminal_def)

lemma forward_jobs_refl [simp]: "forward_jobs s s"
  by (simp add: forward_jobs_def list_all2_same)

lemma forward_jobs_same: "jobs s' = jobs s \<Longrightarrow> forward_jobs s s'"
  by (simp add: forward_jobs_def list_all2_same)

lemma forward_jobs_trans:
  "forward_jobs a b \<Longrightarrow> forward_jobs b c \<Longrightarrow> forward_jobs a c"
  unfolding forward_jobs_def list_all2_conv_all_nth
  by (metis forward_trans)

lemma forward_jobs_apply:
  "(\<And>x. forward (job_status x) (job_status (f x))) \<Longrightarrow> forward_jobs s (apply_job_vo f vo s)"
  by (simp add: forward_jobs_def apply_job_vo_def list_all2_map2 list_all2_same)

lemma forward_jobs_sync_finish:
  "ledger env = spec_ledger \<Longrightarrow> sync_finish env job_vo jid d s = (res, s') \<Longrightarrow>
     forward_jobs s s'"
  by (auto simp: sync_finish_def Let_def split: sum.splits if_splits
        intro!: forward_jobs_apply forward_spec_mark)

lemma forward_jobs_sync_try:
  assumes l: "ledger env = spec_ledger"
    and r: "sync_try env ta pv job_vo params s = (res, s')"
  shows "forward_jobs s s'"
proof -
  let ?sr = "sync_records env ta (ta_sync_options ta) (prov_provider pv) (msg_domain_id params)
      (msg_workspace_id params) (msg_trusted_account_id params) (msg_trusted_secret_id params)"
  show ?thesis
  proof (cases "get_account_collector_plugin_endpoint env pv (msg_domain_id params)")
    case (Inl e)
    with r show ?thesis by (simp add: sync_try_def Let_def)
  next
    case ep: (Inr endpoint)
    show ?thesis
    proof (cases "initialize env endpoint")
      case (Some e)
      with r ep show ?thesis by (auto simp: sync_try_def Let_def)
    next
      case init: None
      show ?thesis
      proof (cases "plugin_sync env endpoint
          (dict_update (prov_options pv) (ta_plugin_options ta))
          (msg_secret_data params) (msg_domain_id params) (prov_schema_id pv)")
        case (Inl e)
        with r ep init show ?thesis by (auto simp: sync_try_def Let_def)
      next
        case ps: (Inr results)
        obtain x s1 where sr: "?sr results s = (x, s1)" by (cases "?sr results s")
        have f1: "forward_jobs s s1"
          using jobs_sync_records[OF sr] by (rule forward_jobs_same)
        show ?thesis
        proof (cases x)
          case (Inl e)
          with r ep init ps sr have "s' = s1" by (simp add: sync_try_def Let_def)
          with f1 show ?thesis by simp
        next
          case (Inr u)
          with r ep init ps sr
          have "sync_finish env job_vo (msg_job_id params) (msg_domain_id params) s1 = (res, s')"
            by (simp add: sync_try_def Let_def)
          from forward_jobs_trans[OF f1 forward_jobs_sync_finish[OF l this]]
          show ?thesis .
        qed
      qed
    qed
  qed
qed

lemma forward_jobs_sync_run:
  assumes l: "ledger env = spec_ledger"
    and r: "sync_run env ta pv job_vo params s = (res, s')"
  shows "forward_jobs s s'"
proof (cases "is_job_failed (msg_job_id params) (msg_domain_id params)
                (Some (job_workspace_id job_vo)) s")
  case (Inl e)
  with r show ?thesis by (simp add: sync_run_def)
next
  case (Inr failed)
  show ?thesis
  proof (cases failed)
    case True
    with r Inr l show ?thesis
      by (auto simp: sync_run_def intro!: forward_jobs_apply forward_spec_mark)
  next
    case False
    let ?s0 = "apply_job_vo (change_in_progress_status (ledger env)) job_vo s"
    obtain x s1 where t: "sync_try env ta pv job_vo params ?s0 = (x, s1)"
      by (cases "sync_try env ta pv job_vo params ?s0")
    have f0: "forward_jobs s ?s0"
      using l by (auto intro!: forward_jobs_apply forward_spec_mark)
    have f1: "forward_jobs ?s0 s1" by (rule forward_jobs_sync_try[OF l t])
    have f2: "forward_jobs s1 s'"
      using r Inr False t l
      by (cases x) (auto simp: sync_run_def intro!: forward_jobs_apply forward_spec_mark_failure)
    from forward_jobs_trans[OF forward_jobs_trans[OF f0 f1] f2] show ?thesis .
  qed
qed

lemma forward_job_set: "forward (job_status x) (job_status (fold job_set params x))"
proof (induction params arbitrary: x)
  case Nil
  then show ?case by simp
next
  case (Cons p ps)
  have "job_status (job_set p x) = job_status x" by (cases p) simp
  with Cons.IH[of "job_set p x"] show ?case by simp
qed

lemma forward_jobs_close_job:
  "ledger env = spec_ledger \<Longrightarrow> close_job env jid d w s = (res, s') \<Longrightarrow> forward_jobs s s'"
  by (auto simp: close_job_def update_job_by_vo_def split: sum.splits if_splits
        intro!: forward_jobs_apply forward_spec_mark forward_job_set)

lemma forward_jobs_sync_service_accounts:
  assumes l: "ledger env = spec_ledger"
  shows "forward_jobs s (snd (sync_service_accounts env params s))"
proof -
  let ?D = "msg_domain_id params"
  show ?thesis
  proof (cases "get_trusted_account env (msg_trusted_account_id params) ?D
                  (Some (msg_workspace_id params))")
    case (Inl e)
    then show ?thesis by (simp add: sync_service_accounts_def Let_def)
  next
    case ta: (Inr ta)
    show ?thesis
    proof (cases "get_job ?D (msg_job_id params) (Some (msg_workspace_id params)) s")
      case (Inl e)
      with ta show ?thesis by (simp add: sync_service_accounts_def Let_def)
    next
      case job: (Inr job_vo)
      show ?thesis
      proof (cases "get_schema env (ta_secret_schema_id ta) ?D")
        case (Some e)
        with ta job show ?thesis by (simp add: sync_service_accounts_def Let_def)
      next
        case sch: None
        show ?thesis
        proof (cases "get_provider env (ta_provider ta) ?D")
          case (Inl e)
          with ta job sch show ?thesis by (simp add: sync_service_accounts_def Let_def)
        next
          case prov: (Inr pv)
          obtain x s1 where run: "sync_run env ta pv job_vo params s = (x, s1)"
            by (cases "sync_run env ta pv job_vo params s")
          have f1: "forward_jobs s s1" by (rule forward_jobs_sync_run[OF l run])
          show ?thesis
          proof (cases x)
            case (Inl e)
            with ta job sch prov run f1 show ?thesis
              by (simp add: sync_service_accounts_def Let_def)
          next
            case (Inr u)
            obtain y s2 where cl: "close_job env (msg_job_id params) ?D
                (Some (job_workspace_id job_vo)) s1 = (y, s2)"
              by (cases "close_job env (msg_job_id params) ?D (Some (job_workspace_id job_vo)) s1")
            from forward_jobs_trans[OF f1 forward_jobs_close_job[OF l cl]]
            have "forward_jobs s s2" .
            with ta job sch prov run Inr cl show ?thesis
              by (simp add: sync_service_accounts_def Let_def)
          qed
        qed
      qed
    qed
  qed
qed


section \<open>Properties\<close>

text \<open>
  C1. \<open>check_duplicate_job\<close> for a newly created job looks at the other jobs of the same
  trusted account, workspace and domain that are IN\_PROGRESS, in the order of the query.
  It returns true exactly when one of them was created after now minus 10 minutes; the
  jobs it passed before that one (all of them, when there is none) are not newer and
  each gets \<^verbatim>\<open>change_canceled_by_vo\<close>. On true the caller applies
  \<^verbatim>\<open>change_error_status\<close> with the duplicate-job error to the new job and the queue
  stays as it was; on false the new job's message is appended to the queue (unless the
  queue transport refuses it). With the spec's ledger each job passed is then stored as
  CANCELED and the new job of a duplicate as FAILURE with the duplicate-job error.
\<close>

theorem duplicate_job_check:
  assumes prov: "get_provider env (ta_provider ta) (ta_domain_id ta) = Inr pv"
    and pid: "prov_plugin_id pv = Some plugin_id"
    and ep: "get_account_collector_plugin_endpoint_by_vo env pv = Inr endpoint"
    and init: "initialize env endpoint = None"
    and cj: "create_job env (ta_resource_group ta) (ta_domain_id ta)
               (if ta_resource_group ta = ''DOMAIN'' then ''*'' else ta_workspace_id ta)
               (ta_trusted_account_id ta) plugin_id job_options s = (job_vo, s1)"
    and m: "matches = list_jobs (duplicate_query (ta_domain_id ta) (ta_trusted_account_id ta) job_vo) s1"
    and ex: "examined = takeWhile (\<lambda>j. \<not> utcnow env - 600 < job_created_at j) matches"
    and s2: "s2 = fold (\<lambda>j. apply_job_vo (change_canceled_by_vo (ledger env)) j) examined s1"
    and r: "r = create_service_account_job env ta job_options s"
  shows "check_duplicate_job env (ta_domain_id ta) (ta_trusted_account_id ta) job_vo s1 =
           (list_ex (\<lambda>j. utcnow env - 600 < job_created_at j) matches, s2)
     \<and> (list_ex (\<lambda>j. utcnow env - 600 < job_created_at j) matches \<longrightarrow>
          r = (Inr job_vo,
               apply_job_vo (change_error_status (ledger env)
                               (ERROR_DUPLICATE_JOB (ta_trusted_account_id ta))) job_vo s2)
          \<and> queue (snd r) = queue s)
     \<and> (\<not> list_ex (\<lambda>j. utcnow env - 600 < job_created_at j) matches \<longrightarrow>
          examined = matches
          \<and> (queue_refuses env (job_message ta job_vo (fetch_trusted_secret_data env ta) job_options) = None \<longrightarrow>
               r = (Inr job_vo,
                    s2\<lparr>queue := queue s @
                         [job_message ta job_vo (fetch_trusted_secret_data env ta) job_options]\<rparr>)))
     \<and> (ledger env = spec_ledger \<longrightarrow>
          (\<forall>j \<in> set examined. j\<lparr>job_status := CANCELED\<rparr> \<in> set (jobs s2))
          \<and> (list_ex (\<lambda>j. utcnow env - 600 < job_created_at j) matches \<longrightarrow>
               job_vo\<lparr>job_status := FAILURE,
                      job_error := Some (ERROR_DUPLICATE_JOB (ta_trusted_account_id ta))\<rparr>
                 \<in> set (jobs (snd r))))"
proof -
  let ?fresh = "\<lambda>j. utcnow env - 600 < job_created_at j"
  let ?taid = "ta_trusted_account_id ta"
  have cd: "check_duplicate_job env (ta_domain_id ta) ?taid job_vo s1 = (list_ex ?fresh matches, s2)"
    by (simp add: check_duplicate_job_def Let_def check_duplicate_loop_eq m ex s2)
  have q2: "queue s2 = queue s"
    using create_job_frame[OF cj] by (simp add: s2 fold_apply_job_vo)
  have rdef: "r = (if list_ex ?fresh matches then
            (Inr job_vo, apply_job_vo (change_error_status (ledger env) (ERROR_DUPLICATE_JOB ?taid)) job_vo s2)
          else (case push_job env (job_message ta job_vo (fetch_trusted_secret_data env ta) job_options) s2 of
               Inl e \<Rightarrow> (Inr job_vo, apply_job_vo (change_error_status (ledger env) e) job_vo s2)
             | Inr s3 \<Rightarrow> (Inr job_vo, s3)))"
    using prov pid ep init cj cd
    by (simp add: r create_service_account_job_def Let_def)
  have A: "list_ex ?fresh matches \<Longrightarrow>
          r = (Inr job_vo, apply_job_vo (change_error_status (ledger env) (ERROR_DUPLICATE_JOB ?taid)) job_vo s2)
          \<and> queue (snd r) = queue s"
    by (simp add: rdef q2 apply_job_vo_def)
  have B1: "\<not> list_ex ?fresh matches \<Longrightarrow> examined = matches"
    by (simp add: ex list_ex_iff)
  have B2: "\<not> list_ex ?fresh matches \<Longrightarrow>
      queue_refuses env (job_message ta job_vo (fetch_trusted_secret_data env ta) job_options) = None \<Longrightarrow>
      r = (Inr job_vo, s2\<lparr>queue := queue s @ [job_message ta job_vo (fetch_trusted_secret_data env ta) job_options]\<rparr>)"
    by (simp add: rdef push_job_def q2)
  have C1: "\<forall>j \<in> set examined. j\<lparr>job_status := CANCELED\<rparr> \<in> set (jobs s2)"
    if l: "ledger env = spec_ledger"
  proof
    fix j assume j: "j \<in> set examined"
    then have "j \<in> set matches" using ex by (auto dest: set_takeWhileD)
    then have js: "j \<in> set (jobs s1)" and st: "job_status j = IN_PROGRESS"
      by (auto simp: m list_jobs_def duplicate_query_def)
    have "jobs s2 = map (\<lambda>x. if job_id x \<in> job_id ` set examined then spec_mark CANCELED x else x) (jobs s1)"
      by (simp add: s2 l fold_apply_job_vo fold_spec_cancel)
    moreover have "spec_mark CANCELED j = j\<lparr>job_status := CANCELED\<rparr>"
      using st by (simp add: spec_mark_def terminal_def)
    ultimately show "j\<lparr>job_status := CANCELED\<rparr> \<in> set (jobs s2)"
      using j js by (auto simp: image_iff intro!: bexI[of _ j])
  qed
  have C2: "job_vo\<lparr>job_status := FAILURE, job_error := Some (ERROR_DUPLICATE_JOB ?taid)\<rparr>
                 \<in> set (jobs (snd r))"
    if l: "ledger env = spec_ledger" and f: "list_ex ?fresh matches"
  proof -
    have js: "job_vo \<in> set (jobs s1)" and st: "job_status job_vo = PENDING"
      using create_job_frame[OF cj] by simp_all
    have ne: "job_id job_vo \<notin> job_id ` set examined"
    proof
      assume "job_id job_vo \<in> job_id ` set examined"
      then obtain j where "j \<in> set examined" "job_id j = job_id job_vo" by auto
      then have "j \<in> set matches" "job_id j = job_id job_vo"
        using ex by (auto dest: set_takeWhileD)
      then show False by (auto simp: m list_jobs_def duplicate_query_def)
    qed
    have "jobs s2 = map (\<lambda>x. if job_id x \<in> job_id ` set examined then spec_mark CANCELED x else x) (jobs s1)"
      by (simp add: s2 l fold_apply_job_vo fold_spec_cancel)
    then have in2: "job_vo \<in> set (jobs s2)"
      using js ne by (auto simp: image_iff intro!: bexI[of _ job_vo])
    have "spec_mark_failure (ERROR_DUPLICATE_JOB ?taid) job_vo =
        job_vo\<lparr>job_status := FAILURE, job_error := Some (ERROR_DUPLICATE_JOB ?taid)\<rparr>"
      using st by (simp add: spec_mark_failure_def terminal_def)
    then show ?thesis
      using A[OF f] in2 l
      by (auto simp: apply_job_vo_def image_iff intro!: bexI[of _ job_vo])
  qed
  from cd A B1 B2 C1 C2 show ?thesis by blast
qed

theorem duplicate_job_check_witness:
  "get_provider ex_env (ta_provider ex_ta) (ta_domain_id ex_ta) = Inr ex_provider
   \<and> prov_plugin_id ex_provider = Some ''plg''
   \<and> get_account_collector_plugin_endpoint_by_vo ex_env ex_provider = Inr ''grpc''
   \<and> initialize ex_env ''grpc'' = None
   \<and> create_service_account_job ex_env ex_ta [] (ex_state [ex_job ''job-0'' IN_PROGRESS 9000])
      = (Inr (ex_job ''job-new'' PENDING 10000),
         \<lparr>jobs = [ex_job ''job-0'' CANCELED 9000, ex_job ''job-new'' PENDING 10000],
          queue = [job_message ex_ta (ex_job ''job-new'' PENDING 10000) [] []],
          workspaces = [], project_groups = [], projects = [], service_accounts = [],
          next_id = 1\<rparr>)
   \<and> create_service_account_job ex_env ex_ta [] (ex_state [ex_job ''job-0'' IN_PROGRESS 9900])
      = (Inr (ex_job ''job-new'' PENDING 10000),
         \<lparr>jobs = [ex_job ''job-0'' IN_PROGRESS 9900,
                  (ex_job ''job-new'' FAILURE 10000)
                    \<lparr>job_error := Some (ERROR_DUPLICATE_JOB ''ta-1'')\<rparr>],
          queue = [],
          workspaces = [], project_groups = [], projects = [], service_accounts = [],
          next_id = 1\<rparr>)"
proof -
  have h1: "get_provider ex_env (ta_provider ex_ta) (ta_domain_id ex_ta) = Inr ex_provider"
    by (simp add: ex_env_simps)
  have h2: "prov_plugin_id ex_provider = Some ''plg''" by (simp add: ex_provider_def)
  have h3: "get_account_collector_plugin_endpoint_by_vo ex_env ex_provider = Inr ''grpc''"
    by (simp add: ex_env_simps)
  have h4: "initialize ex_env ''grpc'' = None" by (simp add: ex_env_simps)
  have f: "fetch_trusted_secret_data ex_env ex_ta = []"
    by (simp add: fetch_trusted_secret_data_def get_trusted_secret_data_def ex_env_simps
          ex_ta_def)
  have ids: "ta_domain_id ex_ta = ''d1''" "ta_trusted_account_id ex_ta = ''ta-1''"
    by (simp_all add: ex_ta_def)
  note t1 = duplicate_job_check[OF h1 h2 h3 h4 ex_create_job refl refl refl refl,
      of "[ex_job ''job-0'' IN_PROGRESS 9000]"]
  note t2 = duplicate_job_check[OF h1 h2 h3 h4 ex_create_job refl refl refl refl,
      of "[ex_job ''job-0'' IN_PROGRESS 9900]"]
  have a: "create_service_account_job ex_env ex_ta [] (ex_state [ex_job ''job-0'' IN_PROGRESS 9000])
      = (Inr (ex_job ''job-new'' PENDING 10000),
         \<lparr>jobs = [ex_job ''job-0'' CANCELED 9000, ex_job ''job-new'' PENDING 10000],
          queue = [job_message ex_ta (ex_job ''job-new'' PENDING 10000) [] []],
          workspaces = [], project_groups = [], projects = [], service_accounts = [],
          next_id = 1\<rparr>)"
    using t1
    by (simp add: f ids ex_env_simps list_jobs_def duplicate_query_def ex_state_def
          ex_job_def apply_job_vo_def spec_mark_def terminal_def)
  have b: "create_service_account_job ex_env ex_ta [] (ex_state [ex_job ''job-0'' IN_PROGRESS 9900])
      = (Inr (ex_job ''job-new'' PENDING 10000),
         \<lparr>jobs = [ex_job ''job-0'' IN_PROGRESS 9900,
                  (ex_job ''job-new'' FAILURE 10000)
                    \<lparr>job_error := Some (ERROR_DUPLICATE_JOB ''ta-1'')\<rparr>],
          queue = [],
          workspaces = [], project_groups = [], projects = [], service_accounts = [],
          next_id = 1\<rparr>)"
    using t2
    by (simp add: f ids ex_env_simps list_jobs_def duplicate_query_def ex_state_def
          ex_job_def apply_job_vo_def spec_mark_failure_def terminal_def)
  from h1 h2 h3 h4 a b show ?thesis by simp
qed

text \<open>
  C2. A workspace \<open>ws-a\<close> that an earlier sync created with \<^verbatim>\<open>references = ["w1"]\<close>
  is resolved by name again for the location node \<open>(ws-a, w1)\<close>: the id is already among
  its references, so nothing is appended, and
  \<open>remove_old_reference_id_from_workspace\<close> then finds this workspace among the holders
  of \<open>w1\<close> and removes the id from it. Afterwards no workspace holds \<open>w1\<close>, the resolved
  one included.
\<close>

theorem create_workspace_drops_reference:
  "workspace_mgr_filter_by_name ''d1'' (loc_name ex_node_ws) ex_inventory = [ex_workspace]
   \<and> ws_references ex_workspace = [loc_resource_id ex_node_ws]
   \<and> create_workspace ex_env ''d1'' ''ta-1'' ex_node_ws ex_inventory =
       (Inr (ex_workspace\<lparr>ws_last_synced_at := Some 10000\<rparr>),
        ex_inventory\<lparr>workspaces :=
          [ex_workspace\<lparr>ws_references := [], ws_last_synced_at := Some 10000\<rparr>]\<rparr>)
   \<and> loc_resource_id ex_node_ws \<notin>
       set (concat (map ws_references
         (workspaces (snd (create_workspace ex_env ''d1'' ''ta-1'' ex_node_ws ex_inventory)))))"
  by (simp add: create_workspace_def Let_def workspace_mgr_filter_by_name_def
        remove_old_reference_id_from_workspace_def workspace_mgr_filter_by_references_def
        update_workspace_by_vo_def ex_env_simps ex_inventory_def ex_workspace_def
        ex_node_ws_def)

text \<open>
  C3. When \<open>create_service_account\<close> matches an existing service account, the update
  payload is exactly \<^verbatim>\<open>trusted_account_id\<close> and \<^verbatim>\<open>last_synced_at\<close>; the names of
  the stored service accounts are left as they were, also when the record's name
  differs; and for a record without secret data the matched account is stored and
  returned with these two fields set and nothing else changed.
\<close>

theorem create_service_account_update:
  assumes "filter_service_accounts
             [SA_provider provider, SA_reference_id (res_resource_id result),
              SA_is_managed True, SA_domain_id (prj_domain_id project_vo),
              SA_workspace_id (prj_workspace_id project_vo),
              SA_project_id (prj_project_id project_vo)] s = a # rest"
  shows "service_account_update_params env result a taid =
           [SA_trusted_account_id taid, SA_last_synced_at (utcnow env)]
     \<and> map sa_name (service_accounts
           (snd (create_service_account env result project_vo taid tsid provider s)))
         = map sa_name (service_accounts s)
     \<and> (res_secret_data result = [] \<longrightarrow>
          create_service_account env result project_vo taid tsid provider s =
            (Inr (a\<lparr>sa_trusted_account_id := Some taid,
                     sa_last_synced_at := Some (utcnow env)\<rparr>),
             s\<lparr>service_accounts :=
                  map (\<lambda>x. if sa_service_account_id x = sa_service_account_id a
                            then x\<lparr>sa_trusted_account_id := Some taid,
                                   sa_last_synced_at := Some (utcnow env)\<rparr>
                            else x) (service_accounts s)\<rparr>))"
  using assms
  by (auto simp: create_service_account_def Let_def sa_update_params_eq
        update_service_account_by_vo_def map_names_update_sa
        split: option.splits sum.splits)

theorem create_service_account_update_witness:
  "filter_service_accounts
     [SA_provider ''aws'', SA_reference_id (res_resource_id ex_record_renamed),
      SA_is_managed True, SA_domain_id (prj_domain_id ex_project),
      SA_workspace_id (prj_workspace_id ex_project),
      SA_project_id (prj_project_id ex_project)] ex_inventory = [ex_service_account]
   \<and> sa_name ex_service_account \<noteq> res_name ex_record_renamed
   \<and> map sa_name (service_accounts
        (snd (create_service_account ex_env ex_record_renamed ex_project ''ta-1''
                (Some ''ts-1'') ''aws'' ex_inventory))) = [''acct-1'']
   \<and> create_service_account ex_env ex_record_renamed ex_project ''ta-1'' (Some ''ts-1'')
        ''aws'' ex_inventory =
      (Inr (ex_service_account\<lparr>sa_trusted_account_id := Some ''ta-1'',
                                sa_last_synced_at := Some 10000\<rparr>),
       ex_inventory\<lparr>service_accounts :=
          [ex_service_account\<lparr>sa_trusted_account_id := Some ''ta-1'',
                               sa_last_synced_at := Some 10000\<rparr>]\<rparr>)"
proof -
  have h: "filter_service_accounts
     [SA_provider ''aws'', SA_reference_id (res_resource_id ex_record_renamed),
      SA_is_managed True, SA_domain_id (prj_domain_id ex_project),
      SA_workspace_id (prj_workspace_id ex_project),
      SA_project_id (prj_project_id ex_project)] ex_inventory = ex_service_account # []"
    by (simp add: filter_service_accounts_def ex_inventory_def ex_service_account_def
          ex_record_renamed_def ex_project_def)
  have n: "sa_name ex_service_account \<noteq> res_name ex_record_renamed"
    by (simp add: ex_service_account_def ex_record_renamed_def)
  have e: "res_secret_data ex_record_renamed = []" by (simp add: ex_record_renamed_def)
  from create_service_account_update[OF h, where env=ex_env and taid="''ta-1''"
      and tsid="Some ''ts-1''"] h n e
  show ?thesis
    by (simp add: ex_inventory_def ex_env_def) (simp add: ex_service_account_def)
qed

text \<open>
  C4. In the job ledger as the spec describes it, a job in progress leaves that status
  only for SUCCESS (\<^verbatim>\<open>change_success_status\<close>), FAILURE (\<^verbatim>\<open>change_error_status\<close>) or
  CANCELED (\<^verbatim>\<open>change_canceled_status\<close>), and each of the three is a no-op on a
  terminal job. Over that ledger a run of \<open>sync_service_accounts\<close> moves the status of
  every job forward only and leaves the status of every terminal job as it was. This
  covers the executor's call of \<^verbatim>\<open>change_canceled_status\<close> after the loop when the job
  is already FAILURE: the call returns and the job, like every terminal job of the
  collection, is left as it was.
\<close>

theorem spec_ledger_terminal_immutable:
  "(job_status j = IN_PROGRESS \<longrightarrow>
      job_status (change_success_status spec_ledger j) = SUCCESS
      \<and> job_status (change_error_status spec_ledger e j) = FAILURE
      \<and> job_status (change_canceled_status spec_ledger j) = CANCELED)
   \<and> (terminal (job_status j) \<longrightarrow>
      change_success_status spec_ledger j = j
      \<and> change_error_status spec_ledger e j = j
      \<and> change_canceled_status spec_ledger j = j)
   \<and> (ledger env = spec_ledger \<longrightarrow>
      forward_jobs s' (snd (sync_service_accounts env params s'))
      \<and> list_all2 (\<lambda>x y. terminal (job_status x) \<longrightarrow> job_status y = job_status x)
           (jobs s') (jobs (snd (sync_service_accounts env params s')))
      \<and> (get_job domain_id jid (Some (job_workspace_id job_vo)) s = Inr j \<longrightarrow>
         job_status j = FAILURE \<longrightarrow>
           fst (sync_finish env job_vo jid domain_id s) = Inr ()
           \<and> get_job domain_id jid (Some (job_workspace_id job_vo))
                 (snd (sync_finish env job_vo jid domain_id s)) = Inr j
           \<and> list_all2 (\<lambda>x y. terminal (job_status x) \<longrightarrow> y = x) (jobs s)
                 (jobs (snd (sync_finish env job_vo jid domain_id s)))))"
proof -
  have a: "job_status j = IN_PROGRESS \<Longrightarrow>
      job_status (change_success_status spec_ledger j) = SUCCESS
      \<and> job_status (change_error_status spec_ledger e j) = FAILURE
      \<and> job_status (change_canceled_status spec_ledger j) = CANCELED"
    by (simp add: spec_mark_def spec_mark_failure_def terminal_def)
  have b: "terminal (job_status j) \<Longrightarrow>
      change_success_status spec_ledger j = j
      \<and> change_error_status spec_ledger e j = j
      \<and> change_canceled_status spec_ledger j = j"
    by (simp add: spec_mark_failure_def)
  have c: "fst (sync_finish env job_vo jid domain_id s) = Inr ()
        \<and> get_job domain_id jid (Some (job_workspace_id job_vo))
              (snd (sync_finish env job_vo jid domain_id s)) = Inr j
        \<and> list_all2 (\<lambda>x y. terminal (job_status x) \<longrightarrow> y = x) (jobs s)
              (jobs (snd (sync_finish env job_vo jid domain_id s)))"
    if l: "ledger env = spec_ledger"
      and g: "get_job domain_id jid (Some (job_workspace_id job_vo)) s = Inr j"
      and f: "job_status j = FAILURE"
  proof -
    have sf: "sync_finish env job_vo jid domain_id s =
        (Inr (), apply_job_vo (spec_mark CANCELED) job_vo s)"
      using l g f by (simp add: sync_finish_def is_job_failed_def)
    have t: "terminal (job_status j)" using f by (simp add: terminal_def)
    have "get_job domain_id jid (Some (job_workspace_id job_vo))
            (apply_job_vo (spec_mark CANCELED) job_vo s) = Inr j"
      using g t by (simp add: get_job_apply_job_vo)
    moreover have "list_all2 (\<lambda>x y. terminal (job_status x) \<longrightarrow> y = x) (jobs s)
        (jobs (apply_job_vo (spec_mark CANCELED) job_vo s))"
      by (simp add: apply_job_vo_def list_all2_map2 list_all2_same)
    ultimately show ?thesis by (simp add: sf)
  qed
  have d: "forward_jobs s' (snd (sync_service_accounts env params s'))"
    if l: "ledger env = spec_ledger"
    by (rule forward_jobs_sync_service_accounts[OF l])
  have e: "list_all2 (\<lambda>x y. terminal (job_status x) \<longrightarrow> job_status y = job_status x)
           (jobs s') (jobs (snd (sync_service_accounts env params s')))"
    if l: "ledger env = spec_ledger"
    using d[OF l] unfolding forward_jobs_def
    by (rule list_all2_mono) (auto dest: forward_terminal)
  from a b c d e show ?thesis by blast
qed

theorem spec_ledger_terminal_immutable_witness:
  "job_status (ex_job ''job-1'' IN_PROGRESS 9000) = IN_PROGRESS
   \<and> job_status (change_success_status spec_ledger (ex_job ''job-1'' IN_PROGRESS 9000)) = SUCCESS
   \<and> job_status (change_error_status spec_ledger (ERROR_EXTERNAL ''plugin'')
         (ex_job ''job-1'' IN_PROGRESS 9000)) = FAILURE
   \<and> job_status (change_canceled_status spec_ledger (ex_job ''job-1'' IN_PROGRESS 9000)) = CANCELED
   \<and> terminal (job_status (ex_job ''job-1'' FAILURE 9000))
   \<and> change_success_status spec_ledger (ex_job ''job-1'' FAILURE 9000) = ex_job ''job-1'' FAILURE 9000
   \<and> change_canceled_status spec_ledger (ex_job ''job-1'' FAILURE 9000) = ex_job ''job-1'' FAILURE 9000
   \<and> ledger ex_env = spec_ledger
   \<and> get_job ''d1'' ''job-1'' (Some (job_workspace_id (ex_job ''job-1'' IN_PROGRESS 9000)))
        (ex_state [ex_job ''job-1'' FAILURE 9000]) = Inr (ex_job ''job-1'' FAILURE 9000)
   \<and> get_job ''d1'' ''job-1'' (Some (job_workspace_id (ex_job ''job-1'' IN_PROGRESS 9000)))
        (snd (sync_finish ex_env (ex_job ''job-1'' IN_PROGRESS 9000) ''job-1'' ''d1''
                (ex_state [ex_job ''job-1'' FAILURE 9000])))
      = Inr (ex_job ''job-1'' FAILURE 9000)
   \<and> map job_status (jobs (snd (sync_service_accounts ex_env (ex_msg ''ta-1'')
         (ex_state [ex_job ''job-1'' FAILURE 9000, ex_job ''job-2'' SUCCESS 9000]))))
      = [FAILURE, SUCCESS]"
proof -
  have a: "job_status (ex_job ''job-1'' IN_PROGRESS 9000) = IN_PROGRESS"
    by (simp add: ex_job_def)
  have b: "job_status (ex_job ''job-1'' FAILURE 9000) = FAILURE"
    by (simp add: ex_job_def)
  have t: "terminal (job_status (ex_job ''job-1'' FAILURE 9000))"
    by (simp add: b terminal_def)
  have l: "ledger ex_env = spec_ledger" by (simp add: ex_env_simps)
  have g: "get_job ''d1'' ''job-1'' (Some (job_workspace_id (ex_job ''job-1'' IN_PROGRESS 9000)))
        (ex_state [ex_job ''job-1'' FAILURE 9000]) = Inr (ex_job ''job-1'' FAILURE 9000)"
    by (simp add: get_job_def ex_job_def ex_state_def)
  have js: "jobs (ex_state [ex_job ''job-1'' FAILURE 9000, ex_job ''job-2'' SUCCESS 9000])
      = [ex_job ''job-1'' FAILURE 9000, ex_job ''job-2'' SUCCESS 9000]"
    by (simp add: ex_state_def)
  have st: "job_status (ex_job ''job-2'' SUCCESS 9000) = SUCCESS" by (simp add: ex_job_def)
  note t1 = spec_ledger_terminal_immutable[where j="ex_job ''job-1'' IN_PROGRESS 9000"
      and e="ERROR_EXTERNAL ''plugin''"]
  note t2 = spec_ledger_terminal_immutable[where j="ex_job ''job-1'' FAILURE 9000" and env=ex_env
      and domain_id="''d1''" and jid="''job-1''" and job_vo="ex_job ''job-1'' IN_PROGRESS 9000"
      and s="ex_state [ex_job ''job-1'' FAILURE 9000]" and params="ex_msg ''ta-1''"
      and s'="ex_state [ex_job ''job-1'' FAILURE 9000, ex_job ''job-2'' SUCCESS 9000]"]
  from t2 l have "list_all2 (\<lambda>x y. terminal (job_status x) \<longrightarrow> job_status y = job_status x)
      [ex_job ''job-1'' FAILURE 9000, ex_job ''job-2'' SUCCESS 9000]
      (jobs (snd (sync_service_accounts ex_env (ex_msg ''ta-1'')
         (ex_state [ex_job ''job-1'' FAILURE 9000, ex_job ''job-2'' SUCCESS 9000]))))"
    by (simp add: js)
  then have m: "map job_status (jobs (snd (sync_service_accounts ex_env (ex_msg ''ta-1'')
         (ex_state [ex_job ''job-1'' FAILURE 9000, ex_job ''job-2'' SUCCESS 9000]))))
      = [FAILURE, SUCCESS]"
    by (auto simp: list_all2_Cons1 b st terminal_def)
  from t1 t2 a b t l g m show ?thesis by simp
qed

text \<open>
  C5, as amended. On every execution path of \<open>sync_service_accounts\<close> on which the four
  lookups of lines 214-224 (trusted account, job, schema, provider) succeed, the method
  ends with \<open>close_job\<close>: after the cancellation of an already failed job, after the
  \<^verbatim>\<open>try\<close> block has returned, and after it has raised and the handler has applied
  \<^verbatim>\<open>change_error_status\<close>. \<open>close_job\<close> applies \<^verbatim>\<open>change_success_status\<close> to a job
  that is IN\_PROGRESS (with the spec's ledger the job is then SUCCESS), only sets
  \<^verbatim>\<open>finished_at\<close> to the current time on a job that is FAILURE, and changes nothing
  for any other status.
\<close>

theorem close_job_after_lookups:
  assumes ta: "get_trusted_account env (msg_trusted_account_id params) (msg_domain_id params)
             (Some (msg_workspace_id params)) = Inr ta"
    and job: "get_job (msg_domain_id params) (msg_job_id params)
             (Some (msg_workspace_id params)) s = Inr job_vo"
    and sch: "get_schema env (ta_secret_schema_id ta) (msg_domain_id params) = None"
    and prov: "get_provider env (ta_provider ta) (msg_domain_id params) = Inr pv"
  shows "sync_service_accounts env params s =
           close_job env (msg_job_id params) (msg_domain_id params)
             (Some (msg_workspace_id params))
             (if job_status job_vo = CANCELED \<or> job_status job_vo = FAILURE then
                apply_job_vo (change_canceled_status (ledger env)) job_vo s
              else case sync_try env ta pv job_vo params
                          (apply_job_vo (change_in_progress_status (ledger env)) job_vo s) of
                     (Inl e, s1) \<Rightarrow> apply_job_vo (change_error_status (ledger env) e) job_vo s1
                   | (Inr u, s1) \<Rightarrow> s1)
     \<and> (get_job (msg_domain_id params) (msg_job_id params)
            (Some (msg_workspace_id params)) s' = Inr j \<longrightarrow>
           close_job env (msg_job_id params) (msg_domain_id params)
               (Some (msg_workspace_id params)) s' =
             (Inr (),
              if job_status j = IN_PROGRESS then
                apply_job_vo (change_success_status (ledger env)) j s'
              else if job_status j = FAILURE then
                apply_job_vo (\<lambda>x. x\<lparr>job_finished_at := Some (utcnow env)\<rparr>) j s'
              else s')
           \<and> (ledger env = spec_ledger \<longrightarrow> job_status j = IN_PROGRESS \<longrightarrow>
                get_job (msg_domain_id params) (msg_job_id params)
                  (Some (msg_workspace_id params))
                  (snd (close_job env (msg_job_id params) (msg_domain_id params)
                          (Some (msg_workspace_id params)) s'))
                = Inr (j\<lparr>job_status := SUCCESS\<rparr>))
           \<and> (job_status j = FAILURE \<longrightarrow>
                get_job (msg_domain_id params) (msg_job_id params)
                  (Some (msg_workspace_id params))
                  (snd (close_job env (msg_job_id params) (msg_domain_id params)
                          (Some (msg_workspace_id params)) s'))
                = Inr (j\<lparr>job_finished_at := Some (utcnow env)\<rparr>)))"
proof -
  let ?D = "msg_domain_id params" and ?J = "msg_job_id params"
  let ?W = "Some (msg_workspace_id params)"
  from job have w: "job_workspace_id job_vo = msg_workspace_id params"
    by (simp add: get_job_workspace)
  have 1: "sync_service_accounts env params s =
           close_job env ?J ?D ?W
             (if job_status job_vo = CANCELED \<or> job_status job_vo = FAILURE then
                apply_job_vo (change_canceled_status (ledger env)) job_vo s
              else case sync_try env ta pv job_vo params
                          (apply_job_vo (change_in_progress_status (ledger env)) job_vo s) of
                     (Inl e, s1) \<Rightarrow> apply_job_vo (change_error_status (ledger env) e) job_vo s1
                   | (Inr u, s1) \<Rightarrow> s1)"
    using ta job sch prov w
    by (auto simp: sync_service_accounts_def Let_def sync_run_def is_job_failed_def
          split: prod.splits sum.splits)
  have 2: "close_job env ?J ?D ?W s' =
             (Inr (),
              if job_status j = IN_PROGRESS then
                apply_job_vo (change_success_status (ledger env)) j s'
              else if job_status j = FAILURE then
                apply_job_vo (\<lambda>x. x\<lparr>job_finished_at := Some (utcnow env)\<rparr>) j s'
              else s')"
    if g: "get_job ?D ?J ?W s' = Inr j"
    using g by (simp add: close_job_def update_job_by_vo_def apply_job_vo_def)
  have 3: "get_job ?D ?J ?W (snd (close_job env ?J ?D ?W s')) = Inr (j\<lparr>job_status := SUCCESS\<rparr>)"
    if g: "get_job ?D ?J ?W s' = Inr j" and l: "ledger env = spec_ledger"
      and st: "job_status j = IN_PROGRESS"
  proof -
    have "spec_mark SUCCESS j = j\<lparr>job_status := SUCCESS\<rparr>"
      using st by (simp add: spec_mark_def terminal_def)
    then show ?thesis
      using g l st by (simp add: 2[OF g] get_job_apply_job_vo)
  qed
  have 4: "get_job ?D ?J ?W (snd (close_job env ?J ?D ?W s')) =
        Inr (j\<lparr>job_finished_at := Some (utcnow env)\<rparr>)"
    if g: "get_job ?D ?J ?W s' = Inr j" and st: "job_status j = FAILURE"
    using g st by (simp add: 2[OF g] get_job_apply_job_vo)
  from 1 2 3 4 show ?thesis by blast
qed

theorem close_job_after_lookups_witness:
  "get_trusted_account ex_env_plugin_down (msg_trusted_account_id (ex_msg ''ta-1''))
     (msg_domain_id (ex_msg ''ta-1'')) (Some (msg_workspace_id (ex_msg ''ta-1''))) = Inr ex_ta
   \<and> get_job (msg_domain_id (ex_msg ''ta-1'')) (msg_job_id (ex_msg ''ta-1''))
        (Some (msg_workspace_id (ex_msg ''ta-1''))) (ex_state [ex_job ''job-1'' PENDING 9000])
      = Inr (ex_job ''job-1'' PENDING 9000)
   \<and> get_schema ex_env_plugin_down (ta_secret_schema_id ex_ta) (msg_domain_id (ex_msg ''ta-1''))
      = None
   \<and> get_provider ex_env_plugin_down (ta_provider ex_ta) (msg_domain_id (ex_msg ''ta-1''))
      = Inr ex_provider
   \<and> sync_try ex_env_plugin_down ex_ta ex_provider (ex_job ''job-1'' PENDING 9000)
        (ex_msg ''ta-1'') (ex_state [ex_job ''job-1'' IN_PROGRESS 9000])
      = (Inl (ERROR_EXTERNAL ''plugin''), ex_state [ex_job ''job-1'' IN_PROGRESS 9000])
   \<and> sync_service_accounts ex_env_plugin_down (ex_msg ''ta-1'')
        (ex_state [ex_job ''job-1'' PENDING 9000])
      = (Inr (), ex_state [(ex_job ''job-1'' FAILURE 9000)
                             \<lparr>job_finished_at := Some 10000,
                              job_error := Some (ERROR_EXTERNAL ''plugin'')\<rparr>])"
proof -
  have h1: "get_trusted_account ex_env_plugin_down (msg_trusted_account_id (ex_msg ''ta-1''))
     (msg_domain_id (ex_msg ''ta-1'')) (Some (msg_workspace_id (ex_msg ''ta-1''))) = Inr ex_ta"
    by (simp add: ex_env_plugin_down_simps ex_msg_def)
  have h2: "get_job (msg_domain_id (ex_msg ''ta-1'')) (msg_job_id (ex_msg ''ta-1''))
        (Some (msg_workspace_id (ex_msg ''ta-1''))) (ex_state [ex_job ''job-1'' PENDING 9000])
      = Inr (ex_job ''job-1'' PENDING 9000)"
    by (simp add: get_job_def ex_msg_def ex_job_def ex_state_def)
  have h3: "get_schema ex_env_plugin_down (ta_secret_schema_id ex_ta)
      (msg_domain_id (ex_msg ''ta-1'')) = None"
    by (simp add: ex_env_plugin_down_simps)
  have h4: "get_provider ex_env_plugin_down (ta_provider ex_ta)
      (msg_domain_id (ex_msg ''ta-1'')) = Inr ex_provider"
    by (simp add: ex_env_plugin_down_simps)
  have st: "job_status (ex_job ''job-1'' PENDING 9000) = PENDING" by (simp add: ex_job_def)
  have ip: "apply_job_vo (change_in_progress_status (ledger ex_env_plugin_down))
              (ex_job ''job-1'' PENDING 9000) (ex_state [ex_job ''job-1'' PENDING 9000])
            = ex_state [ex_job ''job-1'' IN_PROGRESS 9000]"
    by (simp add: ex_env_plugin_down_simps apply_job_vo_def ex_state_def ex_job_def
          spec_mark_def terminal_def)
  have tr: "sync_try ex_env_plugin_down ex_ta ex_provider (ex_job ''job-1'' PENDING 9000)
        (ex_msg ''ta-1'') (ex_state [ex_job ''job-1'' IN_PROGRESS 9000])
      = (Inl (ERROR_EXTERNAL ''plugin''), ex_state [ex_job ''job-1'' IN_PROGRESS 9000])"
    by (simp add: sync_try_def Let_def ex_env_plugin_down_simps)
  have er: "apply_job_vo (change_error_status (ledger ex_env_plugin_down)
                (ERROR_EXTERNAL ''plugin'')) (ex_job ''job-1'' PENDING 9000)
              (ex_state [ex_job ''job-1'' IN_PROGRESS 9000])
            = ex_state [(ex_job ''job-1'' FAILURE 9000)
                          \<lparr>job_error := Some (ERROR_EXTERNAL ''plugin'')\<rparr>]"
    by (simp add: ex_env_plugin_down_simps apply_job_vo_def ex_state_def ex_job_def
          spec_mark_failure_def terminal_def)
  have cl: "close_job ex_env_plugin_down ''job-1'' ''d1'' (Some ''*'')
              (ex_state [(ex_job ''job-1'' FAILURE 9000)
                          \<lparr>job_error := Some (ERROR_EXTERNAL ''plugin'')\<rparr>])
            = (Inr (), ex_state [(ex_job ''job-1'' FAILURE 9000)
                             \<lparr>job_finished_at := Some 10000,
                              job_error := Some (ERROR_EXTERNAL ''plugin'')\<rparr>])"
    by (simp add: close_job_def get_job_def update_job_by_vo_def apply_job_vo_def
          ex_env_plugin_down_simps ex_state_def ex_job_def)
  have m: "msg_job_id (ex_msg ''ta-1'') = ''job-1''" "msg_domain_id (ex_msg ''ta-1'') = ''d1''"
    "msg_workspace_id (ex_msg ''ta-1'') = ''*''"
    by (simp_all add: ex_msg_def)
  from close_job_after_lookups[OF h1 h2 h3 h4]
  have "sync_service_accounts ex_env_plugin_down (ex_msg ''ta-1'')
        (ex_state [ex_job ''job-1'' PENDING 9000])
      = (Inr (), ex_state [(ex_job ''job-1'' FAILURE 9000)
                             \<lparr>job_finished_at := Some 10000,
                              job_error := Some (ERROR_EXTERNAL ''plugin'')\<rparr>])"
    by (simp add: st ip tr er cl m)
  with h1 h2 h3 h4 tr show ?thesis by simp
qed

text \<open>
  C5 as stated fails: when the trusted account of the message no longer exists, the
  lookup of line 214 raises before the \<^verbatim>\<open>try\<close>, the method ends with that error and
  the job stays IN\_PROGRESS, whereas \<open>close_job\<close> on that state returns and closes the
  job.
\<close>

theorem close_job_skipped_counterexample:
  "sync_service_accounts ex_env (ex_msg ''ta-gone'')
     (ex_state [(ex_job ''job-1'' IN_PROGRESS 9000)\<lparr>job_trusted_account_id := ''ta-gone''\<rparr>])
   = (Inl (ERROR_NOT_FOUND ''trusted_account_id'' ''ta-gone''),
      ex_state [(ex_job ''job-1'' IN_PROGRESS 9000)\<lparr>job_trusted_account_id := ''ta-gone''\<rparr>])
   \<and> close_job ex_env ''job-1'' ''d1'' (Some ''*'')
     (ex_state [(ex_job ''job-1'' IN_PROGRESS 9000)\<lparr>job_trusted_account_id := ''ta-gone''\<rparr>])
   = (Inr (),
      ex_state [(ex_job ''job-1'' SUCCESS 9000)\<lparr>job_trusted_account_id := ''ta-gone''\<rparr>])"
  by (simp add: sync_service_accounts_def Let_def ex_env_simps ex_msg_def close_job_def
        get_job_def apply_job_vo_def ex_state_def ex_job_def spec_mark_def terminal_def)




text \<open>
  C7. With \<^verbatim>\<open>skip_project_group\<close> set, \<open>get_location\<close> returns for a DOMAIN-scoped
  account on any non-empty location the one-node location holding only the first (root)
  node, and for a WORKSPACE-scoped account the empty location.
\<close>

theorem get_location_skip_project_group:
  "skip_project_group opts \<Longrightarrow>
     (res_location result \<noteq> [] \<longrightarrow>
        get_location result ''DOMAIN'' opts = [hd (res_location result)])
     \<and> get_location result ''WORKSPACE'' opts = []"
  by (auto simp: get_location_def Let_def split: list.splits)

theorem get_location_skip_project_group_witness:
  "skip_project_group ex_opts_skip \<and> res_location ex_record3 \<noteq> []
   \<and> length (res_location ex_record3) = 3
   \<and> get_location ex_record3 ''DOMAIN'' ex_opts_skip = [ex_node_ws]
   \<and> get_location ex_record3 ''WORKSPACE'' ex_opts_skip = []"
  using get_location_skip_project_group [of ex_opts_skip ex_record3]
  by (simp add: ex_opts_skip_def ex_record3_def)

text \<open>
  C8. In \<open>create_service_account_job\<close>, when fetching the trusted credential raises, or
  validating a fetched non-empty credential against the schema raises, the secret
  payload is the empty dict and job creation goes on: the job is created and returned,
  and when the duplicate check finds no duplicate the message pushed to the queue
  carries the empty dict as \<^verbatim>\<open>secret_data\<close> (it is appended unless the queue transport
  refuses it).
\<close>

theorem secret_failure_keeps_job:
  assumes prov: "get_provider env (ta_provider ta) (ta_domain_id ta) = Inr pv"
    and pid: "prov_plugin_id pv = Some plugin_id"
    and ep: "get_account_collector_plugin_endpoint_by_vo env pv = Inr endpoint"
    and init: "initialize env endpoint = None"
    and fail: "(\<exists>e. get_trusted_secret_data env (ta_trusted_secret_id ta) (ta_domain_id ta) = Inl e)
             \<or> (\<exists>d e. get_trusted_secret_data env (ta_trusted_secret_id ta) (ta_domain_id ta) = Inr d
                    \<and> d \<noteq> []
                    \<and> validate_secret_data_by_schema_id env (Some (ta_secret_schema_id ta))
                          (ta_domain_id ta) d ''SECRET'' = Some e)"
    and cj: "create_job env (ta_resource_group ta) (ta_domain_id ta)
               (if ta_resource_group ta = ''DOMAIN'' then ''*'' else ta_workspace_id ta)
               (ta_trusted_account_id ta) plugin_id job_options s = (job_vo, s1)"
    and r: "r = create_service_account_job env ta job_options s"
  shows "fetch_trusted_secret_data env ta = []
     \<and> fst r = Inr job_vo
     \<and> jobs s1 = jobs s @ [job_vo]
     \<and> length (jobs (snd r)) = Suc (length (jobs s))
     \<and> (\<not> fst (check_duplicate_job env (ta_domain_id ta) (ta_trusted_account_id ta) job_vo s1) \<longrightarrow>
          queue_refuses env (job_message ta job_vo [] job_options) = None \<longrightarrow>
            queue (snd r) = queue s @ [job_message ta job_vo [] job_options]
            \<and> msg_secret_data (job_message ta job_vo [] job_options) = [])"
proof -
  let ?taid = "ta_trusted_account_id ta"
  have f: "fetch_trusted_secret_data env ta = []"
    using fail by (auto simp: fetch_trusted_secret_data_def)
  obtain dup s2 where cd: "check_duplicate_job env (ta_domain_id ta) ?taid job_vo s1 = (dup, s2)"
    by (cases "check_duplicate_job env (ta_domain_id ta) ?taid job_vo s1")
  from cd have q2: "queue s2 = queue s1" and l2: "length (jobs s2) = length (jobs s1)"
    by (auto simp: check_duplicate_job_def Let_def check_duplicate_loop_eq fold_apply_job_vo
          length_fold_map)
  note fr = create_job_frame[OF cj]
  have rdef: "r = (if dup then
            (Inr job_vo, apply_job_vo (change_error_status (ledger env) (ERROR_DUPLICATE_JOB ?taid)) job_vo s2)
          else (case push_job env (job_message ta job_vo [] job_options) s2 of
               Inl e \<Rightarrow> (Inr job_vo, apply_job_vo (change_error_status (ledger env) e) job_vo s2)
             | Inr s3 \<Rightarrow> (Inr job_vo, s3)))"
    using prov pid ep init cj cd f
    by (simp add: r create_service_account_job_def Let_def)
  have a: "fst r = Inr job_vo"
    by (simp add: rdef split: sum.splits)
  have b: "length (jobs (snd r)) = Suc (length (jobs s))"
    using l2 fr by (auto simp: rdef apply_job_vo_def push_job_def split: sum.splits option.splits)
  have c: "\<not> dup \<Longrightarrow> queue_refuses env (job_message ta job_vo [] job_options) = None \<Longrightarrow>
      queue (snd r) = queue s @ [job_message ta job_vo [] job_options]"
    using q2 fr by (simp add: rdef push_job_def)
  have d: "msg_secret_data (job_message ta job_vo [] job_options) = []"
    by (simp add: job_message_def)
  from f a b c d fr cd show ?thesis by simp
qed

theorem secret_failure_keeps_job_witness:
  "get_provider ex_env (ta_provider ex_ta) (ta_domain_id ex_ta) = Inr ex_provider
   \<and> prov_plugin_id ex_provider = Some ''plg''
   \<and> get_account_collector_plugin_endpoint_by_vo ex_env ex_provider = Inr ''grpc''
   \<and> initialize ex_env ''grpc'' = None
   \<and> get_trusted_secret_data ex_env (ta_trusted_secret_id ex_ta) (ta_domain_id ex_ta)
        = Inl (ERROR_EXTERNAL ''vault'')
   \<and> \<not> fst (check_duplicate_job ex_env (ta_domain_id ex_ta) (ta_trusted_account_id ex_ta)
              (ex_job ''job-new'' PENDING 10000)
              ((ex_state [ex_job ''job-new'' PENDING 10000])\<lparr>next_id := 1\<rparr>))
   \<and> fst (create_service_account_job ex_env ex_ta [] (ex_state []))
        = Inr (ex_job ''job-new'' PENDING 10000)
   \<and> length (jobs (snd (create_service_account_job ex_env ex_ta [] (ex_state [])))) = 1
   \<and> queue (snd (create_service_account_job ex_env ex_ta [] (ex_state [])))
        = [job_message ex_ta (ex_job ''job-new'' PENDING 10000) [] []]
   \<and> msg_secret_data (job_message ex_ta (ex_job ''job-new'' PENDING 10000) [] []) = []"
proof -
  have h1: "get_provider ex_env (ta_provider ex_ta) (ta_domain_id ex_ta) = Inr ex_provider"
    by (simp add: ex_env_simps)
  have h2: "prov_plugin_id ex_provider = Some ''plg''" by (simp add: ex_provider_def)
  have h3: "get_account_collector_plugin_endpoint_by_vo ex_env ex_provider = Inr ''grpc''"
    by (simp add: ex_env_simps)
  have h4: "initialize ex_env ''grpc'' = None" by (simp add: ex_env_simps)
  have g: "get_trusted_secret_data ex_env (ta_trusted_secret_id ex_ta) (ta_domain_id ex_ta)
        = Inl (ERROR_EXTERNAL ''vault'')"
    by (simp add: get_trusted_secret_data_def ex_env_simps ex_ta_def)
  then have h5: "(\<exists>e. get_trusted_secret_data ex_env (ta_trusted_secret_id ex_ta) (ta_domain_id ex_ta) = Inl e)
             \<or> (\<exists>d e. get_trusted_secret_data ex_env (ta_trusted_secret_id ex_ta) (ta_domain_id ex_ta) = Inr d
                    \<and> d \<noteq> []
                    \<and> validate_secret_data_by_schema_id ex_env (Some (ta_secret_schema_id ex_ta))
                          (ta_domain_id ex_ta) d ''SECRET'' = Some e)"
    by blast
  have nd: "\<not> fst (check_duplicate_job ex_env (ta_domain_id ex_ta) (ta_trusted_account_id ex_ta)
              (ex_job ''job-new'' PENDING 10000)
              ((ex_state [ex_job ''job-new'' PENDING 10000])\<lparr>next_id := 1\<rparr>))"
    by (simp add: check_duplicate_job_def list_jobs_def duplicate_query_def ex_state_def
          ex_job_def)
  have q: "queue_refuses ex_env (job_message ex_ta (ex_job ''job-new'' PENDING 10000) [] []) = None"
    by (simp add: ex_env_simps)
  have e: "jobs (ex_state []) = []" "queue (ex_state []) = []" by (simp_all add: ex_state_def)
  note t = secret_failure_keeps_job[OF h1 h2 h3 h4 h5 ex_create_job[of "[]", simplified] refl]
  from t nd q e h1 h2 h3 h4 g show ?thesis by simp
qed

text \<open>
  C9. For a DOMAIN-scoped account without \<^verbatim>\<open>single_workspace_id\<close>, a discovered
  record whose derived location is empty is skipped: the loop body returns without an
  error and leaves every collection as it was, and the loop over the records gives the
  same outcome as it gives without that record.
\<close>

theorem sync_empty_location_skipped:
  assumes "ta_resource_group ta = ''DOMAIN''" and "single_workspace_id opts = None"
    and "get_location result (ta_resource_group ta) opts = []"
  shows "sync_record env ta opts provider d w taid tsid result s = (Inr (), s)
     \<and> sync_records env ta opts provider d w taid tsid (before @ result # after) s =
       sync_records env ta opts provider d w taid tsid (before @ after) s"
proof -
  have skip: "\<And>s. sync_record env ta opts provider d w taid tsid result s = (Inr (), s)"
    using assms by (simp add: sync_record_def resolve_sync_workspace_def)
  have "\<And>s. sync_records env ta opts provider d w taid tsid (result # after) s =
     sync_records env ta opts provider d w taid tsid after s"
    by (simp add: skip)
  then show ?thesis
    by (simp add: skip sync_records_append split: prod.splits sum.splits)
qed

theorem sync_empty_location_skipped_witness:
  "ta_resource_group ex_ta = ''DOMAIN'' \<and> single_workspace_id ex_opts_none = None
   \<and> get_location ex_record_noloc (ta_resource_group ex_ta) ex_opts_none = []
   \<and> sync_record ex_env ex_ta ex_opts_none ''aws'' ''d1'' ''*'' ''ta-1'' (Some ''ts-1'')
        ex_record_noloc ex_inventory = (Inr (), ex_inventory)
   \<and> sync_records ex_env ex_ta ex_opts_none ''aws'' ''d1'' ''*'' ''ta-1'' (Some ''ts-1'')
        [ex_record_noloc] ex_inventory = (Inr (), ex_inventory)"
proof -
  have h1: "ta_resource_group ex_ta = ''DOMAIN''" by (simp add: ex_ta_def)
  have h2: "single_workspace_id ex_opts_none = None" by (simp add: ex_opts_none_def)
  have h3: "get_location ex_record_noloc (ta_resource_group ex_ta) ex_opts_none = []"
    by (simp add: get_location_def ex_record_noloc_def ex_opts_none_def)
  from sync_empty_location_skipped[OF h1 h2 h3, where before="[]" and after="[]"] h1 h2 h3
  show ?thesis by simp
qed

text \<open>
  C10. When \<open>create_project\<close> matches an existing project and a parent group id was
  derived, the matched project is returned and stored with its
  \<^verbatim>\<open>project_group_id\<close> overwritten by that id, its name set to the record's name, and
  \<^verbatim>\<open>trusted_account_id\<close> and \<^verbatim>\<open>last_synced_at\<close> updated; the projects with another
  id stay as they were.
\<close>

theorem create_project_update:
  assumes "filter_projects
             [PRJ_domain_id d, PRJ_workspace_id w, PRJ_project_type ''PRIVATE'',
              PRJ_reference_id (res_resource_id result), PRJ_is_managed True] s = p # rest"
  shows "fst (create_project env result d w taid (Some g) s) =
           p\<lparr>prj_project_group_id := Some g, prj_name := res_name result,
             prj_trusted_account_id := Some taid,
             prj_last_synced_at := Some (utcnow env)\<rparr>
     \<and> fst (create_project env result d w taid (Some g) s)
           \<in> set (projects (snd (create_project env result d w taid (Some g) s)))
     \<and> prj_project_group_id (fst (create_project env result d w taid (Some g) s)) = Some g
     \<and> length (projects (snd (create_project env result d w taid (Some g) s))) = length (projects s)
     \<and> (\<forall>x \<in> set (projects s). prj_project_id x \<noteq> prj_project_id p \<longrightarrow>
            x \<in> set (projects (snd (create_project env result d w taid (Some g) s))))"
proof -
  let ?conds = "[PRJ_domain_id d, PRJ_workspace_id w, PRJ_project_type ''PRIVATE'',
              PRJ_reference_id (res_resource_id result), PRJ_is_managed True]"
  have "p \<in> set (filter_projects ?conds s)" using assms by simp
  then have mem: "p \<in> set (projects s)" and has: "list_all (\<lambda>c. prj_has c p) ?conds"
    by (auto simp: filter_projects_def)
  from has have fields: "prj_domain_id p = d" "prj_workspace_id p = w"
    "prj_project_type p = ''PRIVATE''" "prj_reference_id p = Some (res_resource_id result)"
    "prj_is_managed p"
    by simp_all
  show ?thesis
    using assms mem fields
    by (auto simp: create_project_def Let_def update_project_by_vo_def image_iff
          intro!: bexI[of _ p])
qed

theorem create_project_update_witness:
  "filter_projects
     [PRJ_domain_id ''d1'', PRJ_workspace_id ''ws-1'', PRJ_project_type ''PRIVATE'',
      PRJ_reference_id (res_resource_id ex_record_renamed), PRJ_is_managed True]
     ex_inventory = [ex_project]
   \<and> prj_project_group_id ex_project = Some ''pg-old''
   \<and> fst (create_project ex_env ex_record_renamed ''d1'' ''ws-1'' ''ta-1'' (Some ''pg-new'')
        ex_inventory) =
      ex_project\<lparr>prj_project_group_id := Some ''pg-new'', prj_name := ''acct-1-renamed'',
                 prj_trusted_account_id := Some ''ta-1'', prj_last_synced_at := Some 10000\<rparr>
   \<and> projects (snd (create_project ex_env ex_record_renamed ''d1'' ''ws-1'' ''ta-1''
        (Some ''pg-new'') ex_inventory)) =
      [ex_project\<lparr>prj_project_group_id := Some ''pg-new'', prj_name := ''acct-1-renamed'',
                 prj_trusted_account_id := Some ''ta-1'', prj_last_synced_at := Some 10000\<rparr>]"
proof -
  have h: "filter_projects
     [PRJ_domain_id ''d1'', PRJ_workspace_id ''ws-1'', PRJ_project_type ''PRIVATE'',
      PRJ_reference_id (res_resource_id ex_record_renamed), PRJ_is_managed True]
     ex_inventory = ex_project # []"
    by (simp add: filter_projects_def ex_inventory_def ex_project_def ex_record_renamed_def)
  have l: "length (projects ex_inventory) = 1" by (simp add: ex_inventory_def)
  have g: "prj_project_group_id ex_project = Some ''pg-old''" by (simp add: ex_project_def)
  have u: "utcnow ex_env = 10000" by (simp add: ex_env_def)
  have n: "res_name ex_record_renamed = ''acct-1-renamed''"
    by (simp add: ex_record_renamed_def)
  note t = create_project_update[OF h, where env=ex_env and taid="''ta-1''"
      and g="''pg-new''", unfolded u n l]
  from t have a: "fst (create_project ex_env ex_record_renamed ''d1'' ''ws-1'' ''ta-1''
        (Some ''pg-new'') ex_inventory) =
      ex_project\<lparr>prj_project_group_id := Some ''pg-new'', prj_name := ''acct-1-renamed'',
                 prj_trusted_account_id := Some ''ta-1'', prj_last_synced_at := Some 10000\<rparr>"
    by blast
  from t have b: "fst (create_project ex_env ex_record_renamed ''d1'' ''ws-1'' ''ta-1''
        (Some ''pg-new'') ex_inventory) \<in> set (projects (snd (create_project ex_env
        ex_record_renamed ''d1'' ''ws-1'' ''ta-1'' (Some ''pg-new'') ex_inventory)))"
    by blast
  from t have c: "length (projects (snd (create_project ex_env ex_record_renamed ''d1''
        ''ws-1'' ''ta-1'' (Some ''pg-new'') ex_inventory))) = 1"
    by blast
  from b c have "projects (snd (create_project ex_env ex_record_renamed ''d1'' ''ws-1''
        ''ta-1'' (Some ''pg-new'') ex_inventory)) =
      [fst (create_project ex_env ex_record_renamed ''d1'' ''ws-1'' ''ta-1''
        (Some ''pg-new'') ex_inventory)]"
    by (cases "projects (snd (create_project ex_env ex_record_renamed ''d1'' ''ws-1''
        ''ta-1'' (Some ''pg-new'') ex_inventory))") auto
  with a h g show ?thesis by simp
qed

end
